theory Spec2Isabelle
  imports Main "HOL-Library.Word"
begin

unbundle bit_operations_syntax

section \<open>Machine types and the byte store\<close>

type_synonym uint8 = "8 word"
type_synonym uint32 = "32 word"
type_synonym uint64 = "64 word"

text \<open>
  Pointers are absolute addresses (\<open>nat\<close>); \<open>nullptr\<close> is address 0 and
  \<open>MAP_FAILED\<close> is \<open>(void*)-1\<close>. Memory is a store from addresses to bytes.
  Scalars are laid out little-endian, as on the Linux targets of the plugin.
\<close>

type_synonym pointer = nat
type_synonym memory = "nat \<Rightarrow> uint8"

definition nullptr :: pointer where
  "nullptr = 0"

definition MAP_FAILED :: pointer where
  "MAP_FAILED = 2 ^ 64 - 1"

primrec le_bytes :: "nat \<Rightarrow> 'a::len word \<Rightarrow> uint8 list" where
  "le_bytes 0 w = []"
| "le_bytes (Suc n) w = ucast w # le_bytes n (drop_bit 8 w)"

primrec word_of_le :: "uint8 list \<Rightarrow> 'a::len word" where
  "word_of_le [] = 0"
| "word_of_le (b # bs) = ucast b OR push_bit 8 (word_of_le bs)"

definition store_bytes :: "pointer \<Rightarrow> uint8 list \<Rightarrow> memory \<Rightarrow> memory" where
  "store_bytes a bs m = (\<lambda>x. if a \<le> x \<and> x < a + length bs then bs ! (x - a) else m x)"

definition load_bytes :: "memory \<Rightarrow> pointer \<Rightarrow> nat \<Rightarrow> uint8 list" where
  "load_bytes m a n = map m [a ..< a + n]"

definition store_u32 :: "pointer \<Rightarrow> uint32 \<Rightarrow> memory \<Rightarrow> memory" where
  "store_u32 a v m = store_bytes a (le_bytes 4 v) m"

definition store_u64 :: "pointer \<Rightarrow> uint64 \<Rightarrow> memory \<Rightarrow> memory" where
  "store_u64 a v m = store_bytes a (le_bytes 8 v) m"

definition load_u32 :: "memory \<Rightarrow> pointer \<Rightarrow> uint32" where
  "load_u32 m a = word_of_le (load_bytes m a 4)"

definition load_u64 :: "memory \<Rightarrow> pointer \<Rightarrow> uint64" where
  "load_u64 m a = word_of_le (load_bytes m a 8)"

text \<open>\<open>FMemory::Memcpy(Dest, Src, Count)\<close> with the source a byte array.\<close>

definition Memcpy :: "pointer \<Rightarrow> uint8 list \<Rightarrow> nat \<Rightarrow> memory \<Rightarrow> memory" where
  "Memcpy Dest Src Count m = store_bytes Dest (take Count Src) m"

section \<open>Layout of the shared segment (SharedMemoryImageTransport.h)\<close>

text \<open>
  \<open>FSharedImageSlot\<close>: Width (4 bytes), Height (4), Timestamp (8), ImageType (4),
  DataSize (4), then PixelData. \<open>FSharedMemoryHeader\<close>: MagicNumber, NumSlots,
  SlotSize, WriteIndex (4 bytes each), LastUpdateTime (8).
\<close>

definition HeaderSize :: uint32 where
  "HeaderSize = 4 + 4 + 8 + 4 + 4"

definition sizeof_FSharedMemoryHeader :: uint64 where
  "sizeof_FSharedMemoryHeader = 24"

definition MAGIC_NUMBER :: uint32 where
  "MAGIC_NUMBER = 0x41495253"

definition off_MagicNumber :: nat where "off_MagicNumber = 0"
definition off_NumSlots :: nat where "off_NumSlots = 4"
definition off_SlotSize :: nat where "off_SlotSize = 8"
definition off_WriteIndex :: nat where "off_WriteIndex = 12"
definition off_LastUpdateTime :: nat where "off_LastUpdateTime = 16"

definition off_Width :: nat where "off_Width = 0"
definition off_Height :: nat where "off_Height = 4"
definition off_Timestamp :: nat where "off_Timestamp = 8"
definition off_ImageType :: nat where "off_ImageType = 16"
definition off_DataSize :: nat where "off_DataSize = 20"
definition off_PixelData :: nat where "off_PixelData = 24"

section \<open>The transport object and the operating-system objects it owns\<close>

datatype sem_name = WriteSem | ReadSem

datatype syscall =
    Sys_shm_open
  | Sys_ftruncate uint64
  | Sys_mmap uint64
  | Sys_munmap
  | Sys_close
  | Sys_shm_unlink
  | Sys_sem_open sem_name nat
  | Sys_sem_close sem_name
  | Sys_sem_unlink sem_name
  | Sys_sem_timedwait sem_name
  | Sys_sem_post sem_name

datatype fault = DivideByZero | SegmentationFault | CheckFailed

text \<open>
  \<open>struct timespec\<close>. \<open>clock_gettime\<close> yields \<open>0 \<le> tv_nsec < 10^9\<close>, far from the
  limits of \<open>time_t\<close> and \<open>long\<close>, so both fields are integers.
\<close>

record timespec =
  tv_sec :: int
  tv_nsec :: int

text \<open>
  The first ten fields are the members of \<open>FSharedMemoryImageTransport\<close>
  (a semaphore handle is \<open>None\<close> for \<open>SEM_FAILED\<close>). The remaining fields are
  the process's view of the operating system: the byte store, the range currently
  mapped by \<open>mmap\<close>, the value of each named semaphore, the system calls made so far,
  and the reading of \<open>CLOCK_REALTIME\<close>.
  \<open>SharedMemoryName\<close> is left out: the trace records which call is made, not the name
  it is given.
\<close>

record transport =
  SharedMemoryFD :: int
  SharedMemoryPtr :: pointer
  TotalSize :: uint64
  Header :: pointer
  SlotDataStart :: pointer
  WriteSemaphore :: "sem_name option"
  ReadSemaphore :: "sem_name option"
  bIsInitialized :: bool
  MaxSlots :: uint32
  SingleSlotSize :: uint32
  mem :: memory
  mapping :: "(pointer \<times> nat) option"
  sem_value :: "sem_name \<Rightarrow> nat"
  syscalls :: "syscall list"
  clock :: timespec

text \<open>
  What the operating system answers to the system calls of \<open>Initialize\<close>.
  \<open>sem_open\<close> is called with \<open>O_CREAT\<close> and without \<open>O_EXCL\<close>: where a semaphore of
  that name exists already (\<open>sem_write_exists\<close>, \<open>sem_read_exists\<close>), it is opened as it
  is and the initial value is ignored; otherwise it is created with that value.
  \<open>mmap_result\<close> is the address \<open>mmap\<close> returns, \<open>MAP_FAILED\<close> on failure; the
  properties of runs take it not to be the null address. Semaphore values are unbounded
  naturals. Log output changes nothing of the state and is left out.
\<close>

record os_results =
  shm_open_result :: int
  ftruncate_result :: int
  mmap_result :: pointer
  sem_open_write_ok :: bool
  sem_open_read_ok :: bool
  sem_write_exists :: bool
  sem_read_exists :: bool

text \<open>The constructor; the operating-system part is whatever the process has.\<close>

definition FSharedMemoryImageTransport ::
  "memory \<Rightarrow> (sem_name \<Rightarrow> nat) \<Rightarrow> syscall list \<Rightarrow> timespec \<Rightarrow> transport" where
  "FSharedMemoryImageTransport m sv tr now =
     \<lparr> SharedMemoryFD = -1, SharedMemoryPtr = MAP_FAILED, TotalSize = 0,
       Header = nullptr, SlotDataStart = nullptr,
       WriteSemaphore = None, ReadSemaphore = None,
       bIsInitialized = False, MaxSlots = 0, SingleSlotSize = 0,
       mem = m, mapping = None, sem_value = sv, syscalls = tr, clock = now \<rparr>"

definition sys :: "syscall list \<Rightarrow> transport \<Rightarrow> transport" where
  "sys cs s = s\<lparr>syscalls := syscalls s @ cs\<rparr>"

text \<open>An access of \<open>n\<close> bytes at \<open>a\<close> is defined only inside the mapped range.\<close>

definition accessible :: "transport \<Rightarrow> pointer \<Rightarrow> nat \<Rightarrow> bool" where
  "accessible s a n =
     (case mapping s of None \<Rightarrow> False | Some (b, l) \<Rightarrow> b \<le> a \<and> a + n \<le> b + l)"

subsection \<open>Shutdown\<close>

definition UnmapSharedMemory :: "transport \<Rightarrow> transport" where
  "UnmapSharedMemory s =
     (if SharedMemoryPtr s \<noteq> MAP_FAILED \<and> TotalSize s > 0
      then (sys [Sys_munmap] s)\<lparr>mapping := None, SharedMemoryPtr := MAP_FAILED\<rparr>
      else s)"

definition Shutdown :: "transport \<Rightarrow> transport" where
  "Shutdown s =
     (let s1 = (case WriteSemaphore s of
                  Some h \<Rightarrow> (sys [Sys_sem_close h, Sys_sem_unlink WriteSem] s)
                             \<lparr>WriteSemaphore := None\<rparr>
                | None \<Rightarrow> s);
          s2 = (case ReadSemaphore s1 of
                  Some h \<Rightarrow> (sys [Sys_sem_close h, Sys_sem_unlink ReadSem] s1)
                             \<lparr>ReadSemaphore := None\<rparr>
                | None \<Rightarrow> s1);
          s3 = UnmapSharedMemory s2;
          s4 = (if SharedMemoryFD s3 \<ge> 0
                then (sys [Sys_close, Sys_shm_unlink] s3)\<lparr>SharedMemoryFD := -1\<rparr>
                else s3)
      in s4\<lparr>bIsInitialized := False\<rparr>)"

subsection \<open>Initialize\<close>

definition MapSharedMemory :: "os_results \<Rightarrow> uint64 \<Rightarrow> transport \<Rightarrow> pointer \<times> transport" where
  "MapSharedMemory os Size s =
     (let p = mmap_result os;
          s' = sys [Sys_mmap Size] s
      in (p, if p = MAP_FAILED then s' else s'\<lparr>mapping := Some (p, unat Size)\<rparr>))"

definition sem_open ::
  "bool \<Rightarrow> bool \<Rightarrow> sem_name \<Rightarrow> uint32 \<Rightarrow> transport \<Rightarrow> sem_name option \<times> transport" where
  "sem_open ok exists name v s =
     (let s' = sys [Sys_sem_open name (unat v)] s
      in if \<not> ok then (None, s')
         else if exists then (Some name, s')
         else (Some name, s'\<lparr>sem_value := (sem_value s')(name := unat v)\<rparr>))"

definition Initialize ::
  "os_results \<Rightarrow> uint32 \<Rightarrow> uint32 \<Rightarrow> uint32 \<Rightarrow> transport \<Rightarrow> bool \<times> transport" where
  "Initialize os NumSlots MaxWidth MaxHeight s =
     (if bIsInitialized s then (True, s)
      else
        let s = s\<lparr>MaxSlots := NumSlots\<rparr>;
            s = s\<lparr>SingleSlotSize := HeaderSize + (MaxWidth * MaxHeight * 3)\<rparr>;
            s = s\<lparr>SingleSlotSize := (SingleSlotSize s + 4095) AND NOT 4095\<rparr>;
            s = s\<lparr>TotalSize := sizeof_FSharedMemoryHeader
                                  + ucast (SingleSlotSize s * MaxSlots s)\<rparr>;
            HeaderPadding = 4096 - sizeof_FSharedMemoryHeader;
            s = s\<lparr>TotalSize := TotalSize s + HeaderPadding\<rparr>;
            s = (sys [Sys_shm_open] s)\<lparr>SharedMemoryFD := shm_open_result os\<rparr>
        in if SharedMemoryFD s < 0 then (False, s)
           else
             let s = sys [Sys_ftruncate (TotalSize s)] s
             in if ftruncate_result os < 0
                then (False, sys [Sys_close, Sys_shm_unlink] s)
                else
                  let (p, s) = MapSharedMemory os (TotalSize s) s;
                      s = s\<lparr>SharedMemoryPtr := p\<rparr>
                  in if SharedMemoryPtr s = MAP_FAILED
                     then (False, sys [Sys_close, Sys_shm_unlink] s)
                     else
                       let s = s\<lparr>Header := SharedMemoryPtr s\<rparr>;
                           s = s\<lparr>mem := store_u32 (Header s + off_MagicNumber) MAGIC_NUMBER (mem s)\<rparr>;
                           s = s\<lparr>mem := store_u32 (Header s + off_NumSlots) (MaxSlots s) (mem s)\<rparr>;
                           s = s\<lparr>mem := store_u32 (Header s + off_SlotSize) (SingleSlotSize s) (mem s)\<rparr>;
                           s = s\<lparr>mem := store_u32 (Header s + off_WriteIndex) 0 (mem s)\<rparr>;
                           s = s\<lparr>mem := store_u64 (Header s + off_LastUpdateTime) 0 (mem s)\<rparr>;
                           s = s\<lparr>SlotDataStart := SharedMemoryPtr s + 4096\<rparr>;
                           (w, s) = sem_open (sem_open_write_ok os) (sem_write_exists os) WriteSem (MaxSlots s) s;
                           s = s\<lparr>WriteSemaphore := w\<rparr>;
                           (r, s) = sem_open (sem_open_read_ok os) (sem_read_exists os) ReadSem 0 s;
                           s = s\<lparr>ReadSemaphore := r\<rparr>
                       in if WriteSemaphore s = None \<or> ReadSemaphore s = None
                          then (False, Shutdown s)
                          else (True, s\<lparr>bIsInitialized := True\<rparr>))"

subsection \<open>WriteImage\<close>

definition GetSlot :: "uint32 \<Rightarrow> transport \<Rightarrow> pointer" where
  "GetSlot Index s =
     (if Index \<ge> MaxSlots s then nullptr
      else SlotDataStart s + unat (Index * SingleSlotSize s))"

definition InterlockedCompareExchange ::
  "pointer \<Rightarrow> uint32 \<Rightarrow> uint32 \<Rightarrow> transport \<Rightarrow> uint32 \<times> transport" where
  "InterlockedCompareExchange Dest Exchange Comparand s =
     (let old = load_u32 (mem s) Dest
      in (old, if old = Comparand then s\<lparr>mem := store_u32 Dest Exchange (mem s)\<rparr> else s))"

text \<open>
  The compare-and-swap loop. In this sequential model no other writer runs between the
  load and the \<open>InterlockedCompareExchange\<close>, so the exchange returns the value just
  loaded and the loop ends after its first iteration; that is the termination proof.
  An access through \<open>Header\<close> outside the mapping and \<open>% MaxSlots\<close> with no slot are
  faults.
\<close>

function GetNextWriteIndex :: "transport \<Rightarrow> fault + (uint32 \<times> transport)" where
  "GetNextWriteIndex s =
     (if \<not> accessible s (Header s) 24 then Inl SegmentationFault
      else
        let CurrentIndex = load_u32 (mem s) (Header s + off_WriteIndex)
        in if MaxSlots s = 0 then Inl DivideByZero
           else
             let NextIndex = (CurrentIndex + 1) mod MaxSlots s;
                 r = InterlockedCompareExchange (Header s + off_WriteIndex) NextIndex CurrentIndex s
             in if fst r \<noteq> CurrentIndex then GetNextWriteIndex (snd r)
                else Inr (CurrentIndex, snd r))"
  by pat_completeness auto
termination
  by (relation "{}") (auto simp: InterlockedCompareExchange_def Let_def)

declare GetNextWriteIndex.simps [simp del]

text \<open>
  \<open>sem_timedwait\<close> with an absolute deadline, in a run where no other process posts
  the semaphore during the wait: it takes a permit at once if one is there; otherwise it
  blocks until the deadline, which is then the time, and fails (result \<open>-1\<close>).
\<close>

definition sem_timedwait ::
  "sem_name option \<Rightarrow> timespec \<Rightarrow> transport \<Rightarrow> fault + (int \<times> transport)" where
  "sem_timedwait h abs_timeout s =
     (case h of
        None \<Rightarrow> Inl SegmentationFault
      | Some n \<Rightarrow>
          let s' = sys [Sys_sem_timedwait n] s
          in if sem_value s' n > 0
             then Inr (0, s'\<lparr>sem_value := (sem_value s')(n := sem_value s' n - 1)\<rparr>)
             else Inr (-1, s'\<lparr>clock := abs_timeout\<rparr>))"

definition sem_post :: "sem_name option \<Rightarrow> transport \<Rightarrow> fault + transport" where
  "sem_post h s =
     (case h of
        None \<Rightarrow> Inl SegmentationFault
      | Some n \<Rightarrow>
          let s' = sys [Sys_sem_post n] s
          in Inr (s'\<lparr>sem_value := (sem_value s')(n := sem_value s' n + 1)\<rparr>))"

text \<open>\<open>TArray::Num()\<close> is an \<open>int32\<close>; the comparison converts it to \<open>uint32\<close>.\<close>

definition Num :: "'a list \<Rightarrow> uint32" where
  "Num xs = of_nat (length xs)"

definition WriteImage ::
  "uint32 \<Rightarrow> uint32 \<Rightarrow> uint64 \<Rightarrow> uint32 \<Rightarrow> uint8 list \<Rightarrow> transport
     \<Rightarrow> fault + (bool \<times> transport)" where
  "WriteImage Width Height Timestamp ImageType PixelData s =
     (if \<not> bIsInitialized s \<or> Header s = nullptr then Inr (False, s)
      else if Width = 0 \<or> Height = 0 then Inr (False, s)
      else
        let RequiredSize = Width * Height * 3
        in if Num PixelData < RequiredSize then Inr (False, s)
           else
             let ts = clock s;
                 ts = ts\<lparr>tv_nsec := tv_nsec ts + 5000000\<rparr>;
                 ts = (if tv_nsec ts \<ge> 1000000000
                       then ts\<lparr>tv_sec := tv_sec ts + 1, tv_nsec := tv_nsec ts - 1000000000\<rparr>
                       else ts)
             in
             (case sem_timedwait (WriteSemaphore s) ts s of
                Inl f \<Rightarrow> Inl f
              | Inr (rc, s) \<Rightarrow>
                  if rc < 0 then Inr (False, s)
                  else
                    (case GetNextWriteIndex s of
                       Inl f \<Rightarrow> Inl f
                     | Inr (SlotIndex, s) \<Rightarrow>
                         let Slot = GetSlot SlotIndex s
                         in if Slot = nullptr
                            then (case sem_post (WriteSemaphore s) s of
                                    Inl f \<Rightarrow> Inl f
                                  | Inr s \<Rightarrow> Inr (False, s))
                            else if \<not> accessible s Slot (off_PixelData + unat RequiredSize)
                                 \<or> \<not> accessible s (Header s) 24
                            then Inl SegmentationFault
                            else
                              let s = s\<lparr>mem := store_u32 (Slot + off_Width) Width (mem s)\<rparr>;
                                  s = s\<lparr>mem := store_u32 (Slot + off_Height) Height (mem s)\<rparr>;
                                  s = s\<lparr>mem := store_u64 (Slot + off_Timestamp) Timestamp (mem s)\<rparr>;
                                  s = s\<lparr>mem := store_u32 (Slot + off_ImageType) ImageType (mem s)\<rparr>;
                                  s = s\<lparr>mem := store_u32 (Slot + off_DataSize) RequiredSize (mem s)\<rparr>;
                                  s = s\<lparr>mem := Memcpy (Slot + off_PixelData) PixelData
                                                  (unat RequiredSize) (mem s)\<rparr>;
                                  s = s\<lparr>mem := store_u64 (Header s + off_LastUpdateTime)
                                                  Timestamp (mem s)\<rparr>
                              in (case sem_post (ReadSemaphore s) s of
                                    Inl f \<Rightarrow> Inl f
                                  | Inr s \<Rightarrow> Inr (True, s)))))"

subsection \<open>Derived notions used to state the properties\<close>

text \<open>The header field \<open>Header->WriteIndex\<close>, read from the shared segment.\<close>

definition WriteIndex :: "transport \<Rightarrow> uint32" where
  "WriteIndex s = load_u32 (mem s) (Header s + off_WriteIndex)"

text \<open>
  The state \<open>Initialize\<close> leaves on success and every later call keeps: the flag is
  set, the three pointers point into the live mapping of \<open>TotalSize\<close> bytes, and both
  semaphore handles are valid.
\<close>

definition initialized :: "transport \<Rightarrow> bool" where
  "initialized s \<longleftrightarrow>
     bIsInitialized s \<and> Header s \<noteq> nullptr \<and> Header s = SharedMemoryPtr s \<and>
     SharedMemoryPtr s \<noteq> MAP_FAILED \<and> SlotDataStart s = SharedMemoryPtr s + 4096 \<and>
     mapping s = Some (SharedMemoryPtr s, unat (TotalSize s)) \<and>
     TotalSize s = 4096 + ucast (SingleSlotSize s * MaxSlots s) \<and>
     WriteSemaphore s = Some WriteSem \<and> ReadSemaphore s = Some ReadSem"

text \<open>The system calls of \<open>Initialize\<close> all succeed.\<close>

definition init_ok :: "os_results \<Rightarrow> bool" where
  "init_ok os \<longleftrightarrow>
     0 \<le> shm_open_result os \<and> 0 \<le> ftruncate_result os \<and>
     mmap_result os \<noteq> MAP_FAILED \<and> sem_open_write_ok os \<and> sem_open_read_ok os"

text \<open>The slot the next accepted write claims: \<open>GetSlot\<close> at the current write index.\<close>

definition slot_of :: "transport \<Rightarrow> pointer" where
  "slot_of s = SlotDataStart s + unat (WriteIndex s * SingleSlotSize s)"

text \<open>
  The state an accepted \<open>WriteImage\<close> leaves, written out store by store
  (lemma \<open>WriteImage_proceeds\<close> derives it from the code).
\<close>

definition accepted ::
  "uint32 \<Rightarrow> uint32 \<Rightarrow> uint64 \<Rightarrow> uint32 \<Rightarrow> uint8 list \<Rightarrow> transport \<Rightarrow> transport" where
  "accepted W H T Ty P s =
     s\<lparr>mem :=
         store_u64 (Header s + off_LastUpdateTime) T
          (Memcpy (slot_of s + off_PixelData) P (unat (W * H * 3))
            (store_u32 (slot_of s + off_DataSize) (W * H * 3)
              (store_u32 (slot_of s + off_ImageType) Ty
                (store_u64 (slot_of s + off_Timestamp) T
                  (store_u32 (slot_of s + off_Height) H
                    (store_u32 (slot_of s + off_Width) W
                      (store_u32 (Header s + off_WriteIndex)
                         ((WriteIndex s + 1) mod MaxSlots s) (mem s)))))))),
       sem_value := (sem_value s)(WriteSem := sem_value s WriteSem - 1,
                                  ReadSem := sem_value s ReadSem + 1),
       syscalls := syscalls s @ [Sys_sem_timedwait WriteSem, Sys_sem_post ReadSem]\<rparr>"


definition wait_deadline :: "timespec \<Rightarrow> timespec" where
  "wait_deadline now =
     (if tv_nsec now + 5000000 \<ge> 1000000000
      then now\<lparr>tv_sec := tv_sec now + 1, tv_nsec := tv_nsec now + 5000000 - 1000000000\<rparr>
      else now\<lparr>tv_nsec := tv_nsec now + 5000000\<rparr>)"

text \<open>The state a \<open>WriteImage\<close> leaves when its wait for a write permit times out.\<close>

definition timed_out :: "transport \<Rightarrow> transport" where
  "timed_out s = (sys [Sys_sem_timedwait WriteSem] s)\<lparr>clock := wait_deadline (clock s)\<rparr>"

text \<open>The spec's \<open>ceil_to_4096\<close>: rounding up to a multiple of the page size.\<close>

definition ceil_to_4096 :: "nat \<Rightarrow> nat" where
  "ceil_to_4096 n = ((n + 4095) div 4096) * 4096"

text \<open>\<open>TArray\<close> counts its elements in an \<open>int32\<close>.\<close>

definition INT32_MAX :: nat where
  "INT32_MAX = 2 ^ 31 - 1"

subsection \<open>Runs of the producer against a consumer\<close>

text \<open>
  Modelled from the spec: the consumer process is not in the repository. It shares the
  two named semaphores with the producer and reads the segment; between two producer
  calls it may wait on and post the semaphores, which leaves them at some new values.
  \<open>Consumer sv\<close> is such a step, for any values \<open>sv\<close>. A run collects the slot
  index claimed by each accepted \<open>WriteImage\<close> and stops at a fault.
\<close>

datatype event =
    is_Write: Write uint32 uint32 uint64 uint32 "uint8 list"
  | Consumer "sem_name \<Rightarrow> nat"

fun run :: "event list \<Rightarrow> transport \<Rightarrow> uint32 list \<times> (fault + transport)" where
  "run [] s = ([], Inr s)"
| "run (Consumer sv # es) s = run es (s\<lparr>sem_value := sv\<rparr>)"
| "run (Write W H T Ty P # es) s =
     (case WriteImage W H T Ty P s of
        Inl f \<Rightarrow> ([], Inl f)
      | Inr (ok, s') \<Rightarrow>
          ((if ok then [WriteIndex s] else []) @ fst (run es s'), snd (run es s')))"

subsection \<open>A concrete transport\<close>

definition zero_memory :: memory where
  "zero_memory = (\<lambda>a. 0)"

definition no_permits :: "sem_name \<Rightarrow> nat" where
  "no_permits = (\<lambda>n. 0)"

definition epoch :: timespec where
  "epoch = \<lparr> tv_sec = 0, tv_nsec = 0 \<rparr>"

definition fresh_transport :: transport where
  "fresh_transport = FSharedMemoryImageTransport zero_memory no_permits [] epoch"

definition example_os :: os_results where
  "example_os = \<lparr> shm_open_result = 3, ftruncate_result = 0, mmap_result = 65536,
                  sem_open_write_ok = True, sem_open_read_ok = True,
                  sem_write_exists = False, sem_read_exists = False \<rparr>"

definition example_transport :: transport where
  "example_transport = snd (Initialize example_os 3 64 64 fresh_transport)"

text \<open>
  The frame of the end-to-end scenario, a consumer step that leaves one permit on each
  semaphore, and the transport after three such frames have been accepted.
\<close>

definition one_permit :: "sem_name \<Rightarrow> nat" where
  "one_permit = (\<lambda>n. 1)"

definition full_frame :: event where
  "full_frame = Write 64 64 1000 0 (replicate 12288 255)"

definition three_frames_written :: transport where
  "three_frames_written =
     accepted 64 64 1000 0 (replicate 12288 255)
       (accepted 64 64 1000 0 (replicate 12288 255)
         (accepted 64 64 1000 0 (replicate 12288 255) example_transport))"





section \<open>The image packing task (ImagePackingAsyncTask.h)\<close>

text \<open>
  Modelled from the spec: \<open>RenderRequest.h\<close> and the engine's \<open>FColor\<close> and
  \<open>FFloat16Color\<close> are not among the sources. The records below have the fields
  \<open>DoWork\<close> uses: a colour is four bytes B, G, R, A (BGRA in memory); a half-float
  sample is its 16 encoded bits and a float its 32 bits, with \<open>GetFloat\<close> the
  engine's conversion; the dimensions are C++ \<open>int\<close>s.
\<close>

record FColor =
  B :: uint8
  G :: uint8
  R :: uint8
  A :: uint8

type_synonym FFloat16 = "16 word"
type_synonym float = "32 word"

record FFloat16Color =
  R16 :: FFloat16
  G16 :: FFloat16
  B16 :: FFloat16
  A16 :: FFloat16

record RenderParams =
  pixels_as_float :: bool
  compress :: bool

record RenderResult =
  image_data_uint8 :: "uint8 list"
  image_data_float :: "float list"
  bmp :: "FColor list"
  bmp_float :: "FFloat16Color list"
  width :: int
  height :: int

text \<open>
  What the task takes from outside: the PNG encoder, the half-float conversion, and
  the indeterminate contents of array elements added by \<open>SetNumUninitialized\<close>.
\<close>

record externals =
  CompressImageArray :: "int \<Rightarrow> int \<Rightarrow> FColor list \<Rightarrow> uint8 list \<Rightarrow> uint8 list"
  GetFloat :: "FFloat16 \<Rightarrow> float"
  uninitialized_uint8 :: "nat \<Rightarrow> uint8"
  uninitialized_float :: "nat \<Rightarrow> float"

record task =
  Params :: "RenderParams list"
  Results :: "RenderResult list"
  ReqSize :: nat

text \<open>
  \<open>TArray::SetNumUninitialized(NewNum)\<close>: a negative count, or one that does not fit
  the \<open>int32\<close> the product was computed in, is a fault; kept elements stay, added ones
  are indeterminate.
\<close>

definition SetNumUninitialized :: "(nat \<Rightarrow> 'a) \<Rightarrow> int \<Rightarrow> 'a list \<Rightarrow> fault + 'a list" where
  "SetNumUninitialized junk NewNum xs =
     (if NewNum < 0 \<or> int INT32_MAX < NewNum then Inl CheckFailed
      else Inr (take (nat NewNum) xs @ map junk [length xs ..< nat NewNum]))"

text \<open>\<open>*ptr++ = v\<close> into an array buffer: a store past its end is a fault.\<close>

definition poke :: "'a \<Rightarrow> nat \<times> 'a list \<Rightarrow> fault + (nat \<times> 'a list)" where
  "poke v pb =
     (case pb of (ptr, buf) \<Rightarrow>
        if ptr < length buf then Inr (ptr + 1, buf[ptr := v]) else Inl SegmentationFault)"

fun pack_bmp :: "FColor list \<Rightarrow> nat \<times> uint8 list \<Rightarrow> fault + (nat \<times> uint8 list)" where
  "pack_bmp [] pb = Inr pb"
| "pack_bmp (item # items) pb =
     (case poke (B item) pb of
        Inl f \<Rightarrow> Inl f
      | Inr pb \<Rightarrow>
          (case poke (G item) pb of
             Inl f \<Rightarrow> Inl f
           | Inr pb \<Rightarrow>
               (case poke (R item) pb of
                  Inl f \<Rightarrow> Inl f
                | Inr pb \<Rightarrow> pack_bmp items pb)))"

fun pack_bmp_float ::
  "externals \<Rightarrow> FFloat16Color list \<Rightarrow> nat \<times> float list \<Rightarrow> fault + (nat \<times> float list)" where
  "pack_bmp_float ext [] pb = Inr pb"
| "pack_bmp_float ext (item # items) pb =
     (case poke (GetFloat ext (R16 item)) pb of
        Inl f \<Rightarrow> Inl f
      | Inr pb \<Rightarrow> pack_bmp_float ext items pb)"

text \<open>The body of the loop of \<open>DoWork\<close>, for one entry of the batch.\<close>

definition DoWork_entry :: "externals \<Rightarrow> RenderParams \<Rightarrow> RenderResult \<Rightarrow> fault + RenderResult" where
  "DoWork_entry ext param result =
     (if \<not> pixels_as_float param then
        (if width result \<noteq> 0 \<and> height result \<noteq> 0 then
           (case SetNumUninitialized (uninitialized_uint8 ext)
                   (width result * height result * 3) (image_data_uint8 result) of
              Inl f \<Rightarrow> Inl f
            | Inr buf \<Rightarrow>
                if compress param
                then Inr (result\<lparr>image_data_uint8 :=
                            CompressImageArray ext (width result) (height result)
                              (bmp result) buf\<rparr>)
                else (case pack_bmp (bmp result) (0, buf) of
                        Inl f \<Rightarrow> Inl f
                      | Inr (ptr, buf) \<Rightarrow> Inr (result\<lparr>image_data_uint8 := buf\<rparr>)))
         else Inr result)
      else
        (case SetNumUninitialized (uninitialized_float ext)
                (width result * height result) (image_data_float result) of
           Inl f \<Rightarrow> Inl f
         | Inr buf \<Rightarrow>
             (case pack_bmp_float ext (bmp_float result) (0, buf) of
                Inl f \<Rightarrow> Inl f
              | Inr (ptr, buf) \<Rightarrow> Inr (result\<lparr>image_data_float := buf\<rparr>))))"

function DoWork_loop ::
  "externals \<Rightarrow> nat \<Rightarrow> nat \<Rightarrow> RenderParams list \<Rightarrow> RenderResult list
     \<Rightarrow> fault + RenderResult list" where
  "DoWork_loop ext i n ps rs =
     (if i < n then
        (if length rs \<le> i \<or> length ps \<le> i then Inl SegmentationFault
         else
           (case DoWork_entry ext (ps ! i) (rs ! i) of
              Inl f \<Rightarrow> Inl f
            | Inr r \<Rightarrow> DoWork_loop ext (i + 1) n ps (rs[i := r])))
      else Inr rs)"
  by pat_completeness auto
termination
  by (relation "measure (\<lambda>(ext, i, n, ps, rs). n - i)") auto

declare DoWork_loop.simps [simp del]

definition DoWork :: "externals \<Rightarrow> task \<Rightarrow> fault + task" where
  "DoWork ext t =
     (case DoWork_loop ext 0 (ReqSize t) (Params t) (Results t) of
        Inl f \<Rightarrow> Inl f
      | Inr rs \<Rightarrow> Inr (t\<lparr>Results := rs\<rparr>))"

subsection \<open>Derived notions used to state the properties of the task\<close>

text \<open>
  An entry of the uncompressed 8-bit kind whose source bitmap holds exactly
  \<open>width * height\<close> pixels and whose buffer size \<open>width * height * 3\<close> fits the \<open>int\<close>
  it is computed in; and the same entry with its output buffer holding the B, G, R bytes
  of every source pixel, in the order of the source.
\<close>

definition packable :: "RenderParams \<Rightarrow> RenderResult \<Rightarrow> bool" where
  "packable p r \<longleftrightarrow>
     \<not> pixels_as_float p \<and> \<not> compress p \<and> width r \<noteq> 0 \<and> height r \<noteq> 0 \<and>
     int (length (bmp r)) = width r * height r \<and>
     width r * height r * 3 \<le> int INT32_MAX"

definition packed :: "RenderResult \<Rightarrow> RenderResult" where
  "packed r = r\<lparr>image_data_uint8 := concat (map (\<lambda>c. [B c, G c, R c]) (bmp r))\<rparr>"

subsection \<open>A concrete batch\<close>

definition example_externals :: externals where
  "example_externals =
     \<lparr> CompressImageArray = (\<lambda>w h pixels buf. buf), GetFloat = (\<lambda>h. ucast h),
       uninitialized_uint8 = (\<lambda>i. 0), uninitialized_float = (\<lambda>i. 0) \<rparr>"

definition uncompressed :: RenderParams where
  "uncompressed = \<lparr> pixels_as_float = False, compress = False \<rparr>"

definition as_float :: RenderParams where
  "as_float = \<lparr> pixels_as_float = True, compress = False \<rparr>"

definition one_pixel :: RenderResult where
  "one_pixel =
     \<lparr> image_data_uint8 = [], image_data_float = [],
       bmp = [\<lparr> B = 3, G = 2, R = 1, A = 255 \<rparr>], bmp_float = [],
       width = 1, height = 1 \<rparr>"

text \<open>
  An image of two pixels; an entry whose source has one pixel for a 2 by 1 image; and an
  entry of 1000000 by 1000 pixels, for which \<open>width * height * 3\<close> exceeds \<open>INT32_MAX\<close>.
\<close>

definition two_pixels :: RenderResult where
  "two_pixels =
     \<lparr> image_data_uint8 = [], image_data_float = [],
       bmp = [\<lparr> B = 3, G = 2, R = 1, A = 255 \<rparr>, \<lparr> B = 6, G = 5, R = 4, A = 255 \<rparr>],
       bmp_float = [], width = 2, height = 1 \<rparr>"

definition two_pixel_task :: task where
  "two_pixel_task =
     \<lparr> Params = [uncompressed, uncompressed], Results = [two_pixels, one_pixel],
       ReqSize = 2 \<rparr>"

definition short_source :: RenderResult where
  "short_source =
     \<lparr> image_data_uint8 = [], image_data_float = [],
       bmp = [\<lparr> B = 3, G = 2, R = 1, A = 255 \<rparr>], bmp_float = [],
       width = 2, height = 1 \<rparr>"

definition huge_source :: RenderResult where
  "huge_source =
     \<lparr> image_data_uint8 = [], image_data_float = [],
       bmp = replicate 1000000000 \<lparr> B = 3, G = 2, R = 1, A = 255 \<rparr>, bmp_float = [],
       width = 1000000, height = 1000 \<rparr>"

definition one_pixel_task :: task where
  "one_pixel_task = \<lparr> Params = [uncompressed], Results = [one_pixel], ReqSize = 1 \<rparr>"

text \<open>Two float entries of width 0: one with a sample to convert, one with old output.\<close>

definition zero_width_float :: RenderResult where
  "zero_width_float =
     \<lparr> image_data_uint8 = [], image_data_float = [],
       bmp = [], bmp_float = [\<lparr> R16 = 15360, G16 = 0, B16 = 0, A16 = 15360 \<rparr>],
       width = 0, height = 2 \<rparr>"

definition stale_zero_width_float :: RenderResult where
  "stale_zero_width_float =
     \<lparr> image_data_uint8 = [], image_data_float = [7],
       bmp = [], bmp_float = [], width = 0, height = 2 \<rparr>"

definition float_first_task :: task where
  "float_first_task =
     \<lparr> Params = [as_float, uncompressed], Results = [zero_width_float, one_pixel],
       ReqSize = 2 \<rparr>"

definition stale_float_task :: task where
  "stale_float_task =
     \<lparr> Params = [as_float], Results = [stale_zero_width_float], ReqSize = 1 \<rparr>"

section \<open>Facts about the byte store\<close>


lemma length_le_bytes [simp]: "length (le_bytes n w) = n"
  by (induction n arbitrary: w) auto

lemma word_of_le_le_bytes: "(word_of_le (le_bytes n w) :: 'a::len word) = take_bit (8 * n) w"
proof (induction n arbitrary: w)
  case 0
  show ?case by simp
next
  case (Suc n)
  show ?case
    by (simp add: Suc) (rule bit_word_eqI, auto simp add: bit_simps)
qed

lemma word_of_le_bytes_u32 [simp]: "word_of_le (le_bytes 4 (w :: uint32)) = w"
  by (simp add: word_of_le_le_bytes take_bit_word_eq_self)

lemma word_of_le_bytes_u64 [simp]: "word_of_le (le_bytes 8 (w :: uint64)) = w"
  by (simp add: word_of_le_le_bytes take_bit_word_eq_self)

lemma load_store_bytes_same:
  "n = length bs \<Longrightarrow> load_bytes (store_bytes a bs m) a n = bs"
  by (auto simp: load_bytes_def store_bytes_def intro!: nth_equalityI)

lemma load_store_bytes_disjoint:
  "b + n \<le> a \<or> a + length bs \<le> b \<Longrightarrow> load_bytes (store_bytes a bs m) b n = load_bytes m b n"
  by (auto simp: load_bytes_def store_bytes_def)

lemma unat_segment_size: "unat (4096 + ucast (x :: uint32) :: uint64) = 4096 + unat x"
proof -
  have b: "unat x < 2 ^ 32"
    using unsigned_less [of x] by simp
  have a: "unat (ucast x :: uint64) = unat x"
    using b by (simp add: unsigned_ucast_eq take_bit_nat_eq_self)
  have "unat (4096 :: uint64) + unat (ucast x :: uint64) < 2 ^ LENGTH(64)"
    using b by (simp add: a)
  then have "unat (4096 + ucast x :: uint64) = unat (4096 :: uint64) + unat (ucast x :: uint64)"
    by (simp only: unat_add_lem)
  then show ?thesis by (simp add: a)
qed

lemma GetNextWriteIndex_ok:
  assumes "accessible s (Header s) 24" "MaxSlots s \<noteq> 0"
  shows "GetNextWriteIndex s =
           Inr (WriteIndex s,
                s\<lparr>mem := store_u32 (Header s + off_WriteIndex)
                           ((WriteIndex s + 1) mod MaxSlots s) (mem s)\<rparr>)"
  using assms
  by (subst GetNextWriteIndex.simps) (simp add: InterlockedCompareExchange_def Let_def WriteIndex_def)

lemma Initialize_already: "bIsInitialized s \<Longrightarrow> Initialize os N W H s = (True, s)"
  by (simp add: Initialize_def)

lemma Initialize_fails:
  assumes "\<not> bIsInitialized s" "\<not> init_ok os"
  shows "fst (Initialize os N W H s) = False"
proof -
  consider "shm_open_result os < 0"
    | "0 \<le> shm_open_result os" "ftruncate_result os < 0"
    | "0 \<le> shm_open_result os" "0 \<le> ftruncate_result os" "mmap_result os = MAP_FAILED"
    | "0 \<le> shm_open_result os" "0 \<le> ftruncate_result os" "mmap_result os \<noteq> MAP_FAILED"
      "\<not> sem_open_write_ok os"
    | "0 \<le> shm_open_result os" "0 \<le> ftruncate_result os" "mmap_result os \<noteq> MAP_FAILED"
      "sem_open_write_ok os" "\<not> sem_open_read_ok os"
    using assms(2) unfolding init_ok_def by linarith
  then show ?thesis
  proof cases
    case 1
    with assms(1) show ?thesis
      by (simp add: Initialize_def Let_def sys_def)
  next
    case 2
    with assms(1) show ?thesis
      by (simp add: Initialize_def Let_def sys_def)
  next
    case 3
    with assms(1) show ?thesis
      by (simp add: Initialize_def Let_def sys_def MapSharedMemory_def)
  next
    case 4
    with assms(1) show ?thesis
      by (simp add: Initialize_def Let_def sys_def MapSharedMemory_def sem_open_def
          cong: let_weak_cong)
  next
    case 5
    show ?thesis
    proof (cases "sem_write_exists os")
      case True
      with 5 assms(1) show ?thesis
        by (simp add: Initialize_def Let_def sys_def MapSharedMemory_def sem_open_def
            cong: let_weak_cong)
    next
      case False
      with 5 assms(1) show ?thesis
        by (simp add: Initialize_def Let_def sys_def MapSharedMemory_def sem_open_def
            cong: let_weak_cong)
    qed
  qed
qed

lemma fun_upd_keeps: "a \<noteq> c \<Longrightarrow> (f(a := b))(c := f c) = f(a := b)"
  by auto

lemma Initialize_succeeds:
  assumes "\<not> bIsInitialized s" "init_ok os"
  shows "Initialize os N W H s =
    (True,
     s\<lparr>MaxSlots := N,
       SingleSlotSize := (HeaderSize + W * H * 3 + 4095) AND NOT 4095,
       TotalSize := 4096 + ucast (((HeaderSize + W * H * 3 + 4095) AND NOT 4095) * N),
       SharedMemoryFD := shm_open_result os,
       SharedMemoryPtr := mmap_result os,
       Header := mmap_result os,
       SlotDataStart := mmap_result os + 4096,
       mem := store_u64 (mmap_result os + off_LastUpdateTime) 0
               (store_u32 (mmap_result os + off_WriteIndex) 0
                 (store_u32 (mmap_result os + off_SlotSize) ((HeaderSize + W * H * 3 + 4095) AND NOT 4095)
                   (store_u32 (mmap_result os + off_NumSlots) N
                     (store_u32 (mmap_result os + off_MagicNumber) MAGIC_NUMBER (mem s))))),
       mapping := Some (mmap_result os,
                        unat (4096 + ucast (((HeaderSize + W * H * 3 + 4095) AND NOT 4095) * N) :: uint64)),
       WriteSemaphore := Some WriteSem,
       ReadSemaphore := Some ReadSem,
       sem_value := (sem_value s)
         (WriteSem := if sem_write_exists os then sem_value s WriteSem else unat N,
          ReadSem := if sem_read_exists os then sem_value s ReadSem else 0),
       syscalls := syscalls s @
         [Sys_shm_open,
          Sys_ftruncate (4096 + ucast (((HeaderSize + W * H * 3 + 4095) AND NOT 4095) * N)),
          Sys_mmap (4096 + ucast (((HeaderSize + W * H * 3 + 4095) AND NOT 4095) * N)),
          Sys_sem_open WriteSem (unat N), Sys_sem_open ReadSem 0],
       bIsInitialized := True\<rparr>)"
proof -
  consider "sem_write_exists os" "sem_read_exists os"
    | "sem_write_exists os" "\<not> sem_read_exists os"
    | "\<not> sem_write_exists os" "sem_read_exists os"
    | "\<not> sem_write_exists os" "\<not> sem_read_exists os"
    by blast
  then show ?thesis
  proof cases
    case 1
    with assms show ?thesis
      by (simp add: init_ok_def Initialize_def Let_def sys_def MapSharedMemory_def sem_open_def
          sizeof_FSharedMemoryHeader_def fun_upd_keeps cong: let_weak_cong)
  next
    case 2
    with assms show ?thesis
      by (simp add: init_ok_def Initialize_def Let_def sys_def MapSharedMemory_def sem_open_def
          sizeof_FSharedMemoryHeader_def fun_upd_keeps cong: let_weak_cong)
  next
    case 3
    with assms show ?thesis
      by (simp add: init_ok_def Initialize_def Let_def sys_def MapSharedMemory_def sem_open_def
          sizeof_FSharedMemoryHeader_def fun_upd_keeps cong: let_weak_cong)
  next
    case 4
    with assms show ?thesis
      by (simp add: init_ok_def Initialize_def Let_def sys_def MapSharedMemory_def sem_open_def
          sizeof_FSharedMemoryHeader_def fun_upd_keeps cong: let_weak_cong)
  qed
qed

lemma WriteIndex_update [simp]:
  "WriteIndex (s\<lparr>sem_value := sv\<rparr>) = WriteIndex s"
  "WriteIndex (s\<lparr>syscalls := tr\<rparr>) = WriteIndex s"
  "WriteIndex (s\<lparr>clock := t\<rparr>) = WriteIndex s"
  by (simp_all add: WriteIndex_def)

lemma accessible_update [simp]:
  "accessible (s\<lparr>sem_value := sv\<rparr>) a n = accessible s a n"
  "accessible (s\<lparr>syscalls := tr\<rparr>) a n = accessible s a n"
  "accessible (s\<lparr>mem := m\<rparr>) a n = accessible s a n"
  "accessible (s\<lparr>clock := t\<rparr>) a n = accessible s a n"
  by (simp_all add: accessible_def)

lemma WriteImage_not_initialized:
  "\<not> bIsInitialized s \<Longrightarrow> WriteImage W H T Ty P s = Inr (False, s)"
  by (simp add: WriteImage_def)

lemma WriteImage_invalid:
  "W = 0 \<or> H = 0 \<or> Num P < W * H * 3 \<Longrightarrow> WriteImage W H T Ty P s = Inr (False, s)"
  by (auto simp add: WriteImage_def Let_def cong: let_weak_cong)

lemma initialized_header_accessible: "initialized s \<Longrightarrow> accessible s (Header s) 24"
  by (simp add: initialized_def accessible_def unat_segment_size)

lemma WriteImage_no_permit:
  assumes "initialized s" "sem_value s WriteSem = 0" "W \<noteq> 0" "H \<noteq> 0" "\<not> Num P < W * H * 3"
  shows "WriteImage W H T Ty P s = Inr (False, timed_out s)"
  using assms
  by (simp add: WriteImage_def initialized_def sem_timedwait_def sys_def timed_out_def
      wait_deadline_def Let_def cong: let_weak_cong)

lemma WriteImage_proceeds:
  assumes "initialized s" "0 < sem_value s WriteSem" "W \<noteq> 0" "H \<noteq> 0" "\<not> Num P < W * H * 3"
    and "WriteIndex s < MaxSlots s"
  shows "WriteImage W H T Ty P s =
           (if accessible s (slot_of s) (off_PixelData + unat (W * H * 3))
            then Inr (True, accepted W H T Ty P s) else Inl SegmentationFault)"
proof -
  have nz: "MaxSlots s \<noteq> 0"
    using assms(6) by auto
  have hdr: "accessible s (Header s) 24"
    using assms(1) by (rule initialized_header_accessible)
  have sem: "WriteSemaphore s = Some WriteSem" "ReadSemaphore s = Some ReadSem"
    and init: "bIsInitialized s" "Header s \<noteq> nullptr"
    and sds: "SlotDataStart s = SharedMemoryPtr s + 4096"
    using assms(1) by (simp_all add: initialized_def)
  have nle: "\<not> MaxSlots s \<le> WriteIndex s"
    using assms(6) by (simp add: not_le)
  have slot_nz: "SlotDataStart s + unat (WriteIndex s * SingleSlotSize s) \<noteq> nullptr"
    by (simp add: sds nullptr_def)
  show ?thesis
    using init assms(2,3,4,5) hdr nz nle slot_nz
    by (simp add: WriteImage_def sem_timedwait_def GetNextWriteIndex_ok GetSlot_def sem
        sem_post_def sys_def accepted_def slot_of_def Let_def cong: let_weak_cong)
qed

lemma Shutdown_flag [simp]: "bIsInitialized (Shutdown s) = False"
  by (simp add: Shutdown_def Let_def)

lemma Shutdown_released:
  "WriteSemaphore (Shutdown s) = None" "ReadSemaphore (Shutdown s) = None"
  "SharedMemoryFD (Shutdown s) < 0"
  "SharedMemoryPtr (Shutdown s) = MAP_FAILED \<or> \<not> 0 < TotalSize (Shutdown s)"
  by (auto simp add: Shutdown_def UnmapSharedMemory_def sys_def Let_def split: option.splits)

lemma Shutdown_nothing_held:
  assumes "WriteSemaphore s = None" "ReadSemaphore s = None" "SharedMemoryFD s < 0"
    "SharedMemoryPtr s = MAP_FAILED \<or> \<not> 0 < TotalSize s"
  shows "Shutdown s = s\<lparr>bIsInitialized := False\<rparr>"
  using assms by (auto simp add: Shutdown_def UnmapSharedMemory_def Let_def)

lemma Shutdown_idempotent: "Shutdown (Shutdown s) = Shutdown s"
  using Shutdown_released [of s]
  by (subst Shutdown_nothing_held) simp_all

lemma Shutdown_fresh:
  "Shutdown (FSharedMemoryImageTransport m sv tr now) = FSharedMemoryImageTransport m sv tr now"
  by (subst Shutdown_nothing_held) (simp_all add: FSharedMemoryImageTransport_def)

lemma constructed_not_initialized [simp]:
  "bIsInitialized (FSharedMemoryImageTransport m sv tr now) = False"
  by (simp add: FSharedMemoryImageTransport_def)

lemma example_initialized: "bIsInitialized example_transport"
  by (simp add: example_transport_def fresh_transport_def FSharedMemoryImageTransport_def
      Initialize_succeeds init_ok_def example_os_def MAP_FAILED_def)

section \<open>Lifecycle\<close>

text \<open>
  Claim C6. The lifecycle operations are idempotent and order-safe. \<open>Initialize\<close> on
  an already initialized transport returns true and changes nothing, so it makes no
  system call and creates no second segment. \<open>Shutdown\<close> after \<open>Shutdown\<close>
  changes nothing and makes no further system call (every handle was invalidated by the
  first), and \<open>Shutdown\<close> of a freshly constructed transport changes nothing.
  \<open>WriteImage\<close> after \<open>Shutdown\<close>, or before \<open>Initialize\<close>, returns false and
  changes nothing.
\<close>

theorem lifecycle_idempotent:
  "(bIsInitialized s \<longrightarrow> Initialize os N MaxW MaxH s = (True, s)) \<and>
   Shutdown (Shutdown s) = Shutdown s \<and>
   syscalls (Shutdown (Shutdown s)) = syscalls (Shutdown s) \<and>
   Shutdown (FSharedMemoryImageTransport m sv tr now)
     = FSharedMemoryImageTransport m sv tr now \<and>
   WriteImage W H T Ty P (Shutdown s) = Inr (False, Shutdown s) \<and>
   WriteImage W H T Ty P (FSharedMemoryImageTransport m sv tr now)
     = Inr (False, FSharedMemoryImageTransport m sv tr now)"
  by (simp add: Initialize_already Shutdown_idempotent Shutdown_fresh WriteImage_not_initialized)

theorem lifecycle_idempotent_witness:
  "bIsInitialized example_transport \<and>
   Initialize example_os 5 10 10 example_transport = (True, example_transport) \<and>
   Shutdown (Shutdown example_transport) = Shutdown example_transport \<and>
   WriteImage 2 2 7 0 [] (Shutdown example_transport) = Inr (False, Shutdown example_transport)"
proof -
  have h: "bIsInitialized example_transport"
    by (rule example_initialized)
  note t = lifecycle_idempotent [of example_transport example_os 5 10 10 zero_memory no_permits "[]"
      epoch 2 2 7 0 "[]"]
  from t h have "Initialize example_os 5 10 10 example_transport = (True, example_transport)"
    by blast
  with t h show ?thesis
    by blast
qed

section \<open>Facts about accepted writes\<close>

lemma store_bytes_outside:
  "x < a \<or> a + length bs \<le> x \<Longrightarrow> store_bytes a bs m x = m x"
  by (auto simp: store_bytes_def)

lemma Num_less_iff:
  assumes "length P < 2 ^ 32"
  shows "Num P < (r :: uint32) \<longleftrightarrow> length P < unat r"
proof -
  have "unat (Num P) = length P"
    using assms by (simp add: Num_def unsigned_of_nat take_bit_nat_eq_self)
  then show ?thesis
    by (simp add: word_less_nat_alt)
qed

lemma unat_RequiredSize:
  assumes "unat W * unat H * 3 < 2 ^ 32"
  shows "unat (W * H * 3 :: uint32) = unat W * unat H * 3"
proof -
  have "unat W * unat H < 2 ^ LENGTH(32)"
    using assms by simp
  then have wh: "unat (W * H) = unat W * unat H"
    by (simp only: unat_mult_lem)
  have "unat (W * H) * unat (3 :: uint32) < 2 ^ LENGTH(32)"
    using assms by (simp add: wh)
  then have "unat (W * H * 3) = unat (W * H) * unat (3 :: uint32)"
    by (simp only: unat_mult_lem)
  then show ?thesis
    by (simp add: wh)
qed

lemmas offsets =
  off_MagicNumber_def off_NumSlots_def off_SlotSize_def off_WriteIndex_def
  off_LastUpdateTime_def off_Width_def off_Height_def off_Timestamp_def off_ImageType_def
  off_DataSize_def off_PixelData_def

lemma accepted_loads:
  assumes sds: "SlotDataStart s = Header s + 4096"
  shows "load_u32 (mem (accepted W H T Ty P s)) (slot_of s + off_Width) = W"
    and "load_u32 (mem (accepted W H T Ty P s)) (slot_of s + off_Height) = H"
    and "load_u64 (mem (accepted W H T Ty P s)) (slot_of s + off_Timestamp) = T"
    and "load_u32 (mem (accepted W H T Ty P s)) (slot_of s + off_ImageType) = Ty"
    and "load_u32 (mem (accepted W H T Ty P s)) (slot_of s + off_DataSize) = W * H * 3"
    and "load_u64 (mem (accepted W H T Ty P s)) (Header s + off_LastUpdateTime) = T"
    and "WriteIndex (accepted W H T Ty P s) = (WriteIndex s + 1) mod MaxSlots s"
proof -
  obtain k where k: "slot_of s = Header s + 4096 + k"
    by (simp add: slot_of_def sds)
  show "load_u32 (mem (accepted W H T Ty P s)) (slot_of s + off_Width) = W"
    by (simp add: accepted_def k offsets load_u32_def store_u32_def store_u64_def Memcpy_def
        load_store_bytes_same load_store_bytes_disjoint)
  show "load_u32 (mem (accepted W H T Ty P s)) (slot_of s + off_Height) = H"
    by (simp add: accepted_def k offsets load_u32_def store_u32_def store_u64_def Memcpy_def
        load_store_bytes_same load_store_bytes_disjoint)
  show "load_u64 (mem (accepted W H T Ty P s)) (slot_of s + off_Timestamp) = T"
    by (simp add: accepted_def k offsets load_u64_def store_u32_def store_u64_def Memcpy_def
        load_store_bytes_same load_store_bytes_disjoint)
  show "load_u32 (mem (accepted W H T Ty P s)) (slot_of s + off_ImageType) = Ty"
    by (simp add: accepted_def k offsets load_u32_def store_u32_def store_u64_def Memcpy_def
        load_store_bytes_same load_store_bytes_disjoint)
  show "load_u32 (mem (accepted W H T Ty P s)) (slot_of s + off_DataSize) = W * H * 3"
    by (simp add: accepted_def k offsets load_u32_def store_u32_def store_u64_def Memcpy_def
        load_store_bytes_same load_store_bytes_disjoint)
  show "load_u64 (mem (accepted W H T Ty P s)) (Header s + off_LastUpdateTime) = T"
    by (simp add: accepted_def k offsets load_u64_def store_u32_def store_u64_def Memcpy_def
        load_store_bytes_same load_store_bytes_disjoint)
  show "WriteIndex (accepted W H T Ty P s) = (WriteIndex s + 1) mod MaxSlots s"
    by (simp add: WriteIndex_def accepted_def k offsets load_u32_def store_u32_def store_u64_def
        Memcpy_def load_store_bytes_same load_store_bytes_disjoint)
qed

lemma accepted_pixels:
  assumes sds: "SlotDataStart s = Header s + 4096" and "unat (W * H * 3) \<le> length P"
  shows "load_bytes (mem (accepted W H T Ty P s)) (slot_of s + off_PixelData) (unat (W * H * 3))
           = take (unat (W * H * 3)) P"
proof -
  obtain k where k: "slot_of s = Header s + 4096 + k"
    by (simp add: slot_of_def sds)
  show ?thesis
    using assms(2)
    by (simp add: accepted_def k offsets store_u64_def Memcpy_def
        load_store_bytes_same load_store_bytes_disjoint)
qed

lemma accepted_beyond:
  assumes sds: "SlotDataStart s = Header s + 4096"
    and "slot_of s + off_PixelData + unat (W * H * 3) \<le> a"
  shows "mem (accepted W H T Ty P s) a = mem s a"
proof -
  obtain k where k: "slot_of s = Header s + 4096 + k"
    by (simp add: slot_of_def sds)
  show ?thesis
    using assms(2)
    by (simp add: accepted_def k offsets store_u32_def store_u64_def Memcpy_def
        store_bytes_outside)
qed

lemma accepted_fields [simp]:
  "initialized (accepted W H T Ty P s) = initialized s"
  "MaxSlots (accepted W H T Ty P s) = MaxSlots s"
  "SingleSlotSize (accepted W H T Ty P s) = SingleSlotSize s"
  "Header (accepted W H T Ty P s) = Header s"
  "sem_value (accepted W H T Ty P s) WriteSem = sem_value s WriteSem - 1"
  "sem_value (accepted W H T Ty P s) ReadSem = sem_value s ReadSem + 1"
  "syscalls (accepted W H T Ty P s)
     = syscalls s @ [Sys_sem_timedwait WriteSem, Sys_sem_post ReadSem]"
  by (simp_all add: initialized_def accepted_def)

lemma and_not_4095: "(y :: uint32) AND NOT 4095 = push_bit 12 (drop_bit 12 y)"
proof -
  have m: "(4095 :: uint32) = mask 12"
    by (simp add: mask_eq_exp_minus_1)
  show ?thesis
    unfolding m
    by (rule bit_word_eqI) (auto simp add: bit_simps)
qed

lemma unat_round_down: "unat ((y :: uint32) AND NOT 4095) = (unat y div 4096) * 4096"
proof -
  have "unat (push_bit 12 (drop_bit 12 y)) = take_bit 32 (push_bit 12 (drop_bit 12 (unat y)))"
    by (simp add: unsigned_push_bit_eq unat_drop_bit_eq)
  also have "push_bit 12 (drop_bit 12 (unat y)) = (unat y div 4096) * 4096"
    by (simp add: push_bit_eq_mult drop_bit_eq_div)
  also have "take_bit 32 ((unat y div 4096) * 4096) = (unat y div 4096) * 4096"
  proof -
    have "(unat y div 4096) * 4096 \<le> unat y" by simp
    also have "unat y < 2 ^ 32" using unsigned_less [of y] by simp
    finally show ?thesis by (simp add: take_bit_nat_eq_self)
  qed
  finally show ?thesis unfolding and_not_4095 .
qed

lemma unat_slot_size:
  assumes "unat HeaderSize + unat W * unat H * 3 + 4095 < 2 ^ 32"
  shows "unat ((HeaderSize + W * H * 3 + 4095) AND NOT 4095)
           = ceil_to_4096 (unat HeaderSize + unat W * unat H * 3)"
proof -
  have h: "unat HeaderSize + unat W * unat H * 3 < 2 ^ 32"
    using assms by simp
  then have r: "unat (W * H * 3) = unat W * unat H * 3"
    by (intro unat_RequiredSize) simp
  have "unat HeaderSize + unat (W * H * 3) < 2 ^ LENGTH(32)"
    using h by (simp add: r)
  then have a: "unat (HeaderSize + W * H * 3) = unat HeaderSize + unat (W * H * 3)"
    by (simp only: unat_add_lem)
  have "unat (HeaderSize + W * H * 3) + unat (4095 :: uint32) < 2 ^ LENGTH(32)"
    using assms by (simp add: a r)
  then have "unat (HeaderSize + W * H * 3 + 4095)
               = unat (HeaderSize + W * H * 3) + unat (4095 :: uint32)"
    by (simp only: unat_add_lem)
  then show ?thesis
    unfolding unat_round_down ceil_to_4096_def by (simp add: a r)
qed

lemma GetNextWriteIndex_zero:
  assumes "accessible s (Header s) 24" "MaxSlots s = 0"
  shows "GetNextWriteIndex s = Inl DivideByZero"
  using assms by (subst GetNextWriteIndex.simps) (simp add: Let_def)

lemma WriteImage_stale_index:
  assumes "initialized s" "0 < sem_value s WriteSem" "W \<noteq> 0" "H \<noteq> 0" "\<not> Num P < W * H * 3"
    and "\<not> WriteIndex s < MaxSlots s"
  shows "WriteImage W H T Ty P s \<noteq> Inr (True, s')"
proof -
  have hdr: "accessible s (Header s) 24"
    using assms(1) by (rule initialized_header_accessible)
  have sem: "WriteSemaphore s = Some WriteSem" "ReadSemaphore s = Some ReadSem"
    and init: "bIsInitialized s" "Header s \<noteq> nullptr"
    using assms(1) by (simp_all add: initialized_def)
  show ?thesis
  proof (cases "MaxSlots s = 0")
    case True
    then show ?thesis
      using init assms(2,3,4,5) hdr
      by (simp add: WriteImage_def sem_timedwait_def GetNextWriteIndex_zero sem sys_def Let_def
          cong: let_weak_cong)
  next
    case False
    moreover have "MaxSlots s \<le> WriteIndex s"
      using assms(6) by (simp add: not_less)
    ultimately show ?thesis
      using init assms(2,3,4,5) hdr
      by (simp add: WriteImage_def sem_timedwait_def GetNextWriteIndex_ok GetSlot_def sem
          sem_post_def sys_def Let_def cong: let_weak_cong)
  qed
qed

lemma WriteImage_TrueD:
  assumes "initialized s" "WriteImage W H T Ty P s = Inr (True, s')"
  shows "W \<noteq> 0" and "H \<noteq> 0" and "\<not> Num P < W * H * 3" and "0 < sem_value s WriteSem"
    and "WriteIndex s < MaxSlots s"
    and "accessible s (slot_of s) (off_PixelData + unat (W * H * 3))"
    and "s' = accepted W H T Ty P s"
proof -
  have valid: "\<not> (W = 0 \<or> H = 0 \<or> Num P < W * H * 3)"
    using assms(2) WriteImage_invalid [of W H P T Ty s] by auto
  then show "W \<noteq> 0" and "H \<noteq> 0" and v: "\<not> Num P < W * H * 3"
    by simp_all
  show permit: "0 < sem_value s WriteSem"
    using assms WriteImage_no_permit [of s W H P T Ty] valid by (cases "sem_value s WriteSem") auto
  show idx: "WriteIndex s < MaxSlots s"
    using assms WriteImage_stale_index [of s W H P T Ty s'] valid permit by blast
  have "WriteImage W H T Ty P s =
           (if accessible s (slot_of s) (off_PixelData + unat (W * H * 3))
            then Inr (True, accepted W H T Ty P s) else Inl SegmentationFault)"
    using assms(1) permit valid idx by (intro WriteImage_proceeds) simp_all
  with assms(2) show "accessible s (slot_of s) (off_PixelData + unat (W * H * 3))"
    and "s' = accepted W H T Ty P s"
    by (simp_all split: if_splits)
qed

lemma GetSlot_claimed:
  "WriteIndex s < MaxSlots s \<Longrightarrow> GetSlot (WriteIndex s) s = slot_of s"
  by (simp add: GetSlot_def slot_of_def not_le [symmetric])

lemma initialized_SlotDataStart: "initialized s \<Longrightarrow> SlotDataStart s = Header s + 4096"
  by (simp add: initialized_def)

lemma Initialize_establishes:
  assumes "\<not> bIsInitialized s" "Initialize os N W H s = (True, s')" "mmap_result os \<noteq> nullptr"
  shows "initialized s'" and "MaxSlots s' = N" and "WriteIndex s' = 0"
    and "\<not> sem_write_exists os \<longrightarrow> sem_value s' WriteSem = unat N"
    and "\<not> sem_read_exists os \<longrightarrow> sem_value s' ReadSem = 0"
    and "SingleSlotSize s' = (HeaderSize + W * H * 3 + 4095) AND NOT 4095"
    and "SharedMemoryPtr s' = mmap_result os"
    and "sem_write_exists os \<longrightarrow> sem_value s' WriteSem = sem_value s WriteSem"
proof -
  have ok: "init_ok os"
    using assms(1,2) Initialize_fails [of s os N W H] by auto
  note eq = assms(2) [unfolded Initialize_succeeds [OF assms(1) ok]]
  show "initialized s'"
    using eq ok assms(3) by (auto simp add: initialized_def init_ok_def)
  show "MaxSlots s' = N"
    using eq by auto
  show "WriteIndex s' = 0"
    using eq
    by (auto simp add: WriteIndex_def offsets load_u32_def store_u32_def store_u64_def
        load_store_bytes_same load_store_bytes_disjoint)
  show "\<not> sem_write_exists os \<longrightarrow> sem_value s' WriteSem = unat N"
    and "\<not> sem_read_exists os \<longrightarrow> sem_value s' ReadSem = 0"
    using eq by auto
  show "SingleSlotSize s' = (HeaderSize + W * H * 3 + 4095) AND NOT 4095"
    using eq by auto
  show "SharedMemoryPtr s' = mmap_result os"
    using eq by auto
  show "sem_write_exists os \<longrightarrow> sem_value s' WriteSem = sem_value s WriteSem"
    using eq by auto
qed

lemma load_store_bytes_inside:
  "a \<le> b \<Longrightarrow> b + n \<le> a + length bs \<Longrightarrow>
   load_bytes (store_bytes a bs m) b n = take n (drop (b - a) bs)"
  by (auto simp: load_bytes_def store_bytes_def intro!: nth_equalityI)

lemma example_Initialize:
  "Initialize example_os 3 64 64 fresh_transport = (True, example_transport)"
proof -
  have a: "\<not> bIsInitialized fresh_transport"
    by (simp add: fresh_transport_def)
  have b: "init_ok example_os"
    by (simp add: init_ok_def example_os_def MAP_FAILED_def)
  show ?thesis
    unfolding example_transport_def by (simp add: Initialize_succeeds [OF a b])
qed

lemma example_facts:
  "initialized example_transport" "MaxSlots example_transport = 3"
  "WriteIndex example_transport = 0" "sem_value example_transport WriteSem = 3"
  "sem_value example_transport ReadSem = 0"
  "SingleSlotSize example_transport = 16384"
  "Header example_transport = 65536"
  "slot_of example_transport = 69632"
  "mapping example_transport = Some (65536, 53248)"
proof -
  have a: "\<not> bIsInitialized fresh_transport"
    by (simp add: fresh_transport_def)
  have n: "mmap_result example_os \<noteq> nullptr"
    by (simp add: example_os_def nullptr_def)
  note e = Initialize_establishes [OF a example_Initialize n]
  show i: "initialized example_transport" and "MaxSlots example_transport = 3"
    and w: "WriteIndex example_transport = 0"
    using e by simp_all
  show "sem_value example_transport WriteSem = 3" and "sem_value example_transport ReadSem = 0"
    using e by (simp_all add: example_os_def)
  show sz: "SingleSlotSize example_transport = 16384"
    using e(6) by (simp add: HeaderSize_def)
  have p: "SharedMemoryPtr example_transport = 65536"
    using e(7) by (simp add: example_os_def)
  show "Header example_transport = 65536"
    using i p by (simp add: initialized_def)
  show "slot_of example_transport = 69632"
    using i p w by (simp add: slot_of_def initialized_def)
  show "mapping example_transport = Some (65536, 53248)"
    using i p sz e(2) by (simp add: initialized_def)
qed

lemma example_accepts:
  assumes "W \<noteq> 0" "H \<noteq> 0" "\<not> Num P < W * H * 3" "unat (W * H * 3) + 24 \<le> 49152"
  shows "WriteImage W H T Ty P example_transport
           = Inr (True, accepted W H T Ty P example_transport)"
proof -
  have "accessible example_transport (slot_of example_transport) (off_PixelData + unat (W * H * 3))"
    using assms(4) by (simp add: accessible_def example_facts offsets)
  moreover have "WriteImage W H T Ty P example_transport =
      (if accessible example_transport (slot_of example_transport) (off_PixelData + unat (W * H * 3))
       then Inr (True, accepted W H T Ty P example_transport) else Inl SegmentationFault)"
    using assms(1,2,3) by (intro WriteImage_proceeds) (simp_all add: example_facts)
  ultimately show ?thesis
    by simp
qed

section \<open>Accepted writes\<close>

text \<open>
  Claim C1. For every initialized transport and every input with width > 0, height > 0
  and \<open>len(pixels) = width*height*3\<close> (a \<open>TArray\<close> holds at most \<open>INT32_MAX\<close>
  elements), a successful \<open>WriteImage\<close> stores into the claimed slot, the one
  \<open>GetSlot\<close> gives for the write index before the call (it starts
  \<open>WriteIndex * SingleSlotSize\<close> bytes after \<open>SlotDataStart\<close>), exactly the given Width, Height,
  Timestamp and ImageType and \<open>DataSize = width*height*3\<close>; the slot's PixelData holds the
  pixel bytes byte for byte; the header's LastUpdateTime is the timestamp; the read-ready
  semaphore has been posted once and one write permit has been consumed, the call's system
  calls being one \<open>sem_timedwait\<close> on the write semaphore and one \<open>sem_post\<close> on the read
  semaphore.
\<close>

theorem WriteImage_round_trip:
  assumes "initialized s"
    and "Width \<noteq> 0" and "Height \<noteq> 0"
    and "length PixelData = unat Width * unat Height * 3"
    and "length PixelData \<le> INT32_MAX"
    and "WriteImage Width Height Timestamp ImageType PixelData s = Inr (True, s')"
    and "Slot = GetSlot (WriteIndex s) s"
  shows "Slot = SlotDataStart s + unat (WriteIndex s * SingleSlotSize s) \<and>
         load_u32 (mem s') (Slot + off_Width) = Width \<and>
         load_u32 (mem s') (Slot + off_Height) = Height \<and>
         load_u64 (mem s') (Slot + off_Timestamp) = Timestamp \<and>
         load_u32 (mem s') (Slot + off_ImageType) = ImageType \<and>
         unat (load_u32 (mem s') (Slot + off_DataSize)) = unat Width * unat Height * 3 \<and>
         load_bytes (mem s') (Slot + off_PixelData) (unat Width * unat Height * 3) = PixelData \<and>
         load_u64 (mem s') (Header s' + off_LastUpdateTime) = Timestamp \<and>
         sem_value s' ReadSem = sem_value s ReadSem + 1 \<and>
         sem_value s' WriteSem + 1 = sem_value s WriteSem \<and>
         syscalls s' = syscalls s @ [Sys_sem_timedwait WriteSem, Sys_sem_post ReadSem]"
proof -
  note d = WriteImage_TrueD [OF assms(1) assms(6)]
  have sds: "SlotDataStart s = Header s + 4096"
    using assms(1) by (rule initialized_SlotDataStart)
  have slot: "Slot = slot_of s"
    using assms(7) d(5) by (simp add: GetSlot_claimed)
  have "unat Width * unat Height * 3 < 2 ^ 32"
    using assms(4,5) by (simp add: INT32_MAX_def)
  then have r: "unat (Width * Height * 3) = unat Width * unat Height * 3"
    by (rule unat_RequiredSize)
  have px: "load_bytes (mem s') (Slot + off_PixelData) (unat (Width * Height * 3))
              = take (unat (Width * Height * 3)) PixelData"
    unfolding slot d(7) using sds by (rule accepted_pixels) (simp add: r assms(4))
  have at: "Slot = SlotDataStart s + unat (WriteIndex s * SingleSlotSize s)"
    using slot by (simp add: slot_of_def)
  have "load_u32 (mem s') (Slot + off_Width) = Width \<and>
         load_u32 (mem s') (Slot + off_Height) = Height \<and>
         load_u64 (mem s') (Slot + off_Timestamp) = Timestamp \<and>
         load_u32 (mem s') (Slot + off_ImageType) = ImageType \<and>
         unat (load_u32 (mem s') (Slot + off_DataSize)) = unat Width * unat Height * 3 \<and>
         load_bytes (mem s') (Slot + off_PixelData) (unat Width * unat Height * 3) = PixelData \<and>
         load_u64 (mem s') (Header s' + off_LastUpdateTime) = Timestamp \<and>
         sem_value s' ReadSem = sem_value s ReadSem + 1 \<and>
         sem_value s' WriteSem + 1 = sem_value s WriteSem \<and>
         syscalls s' = syscalls s @ [Sys_sem_timedwait WriteSem, Sys_sem_post ReadSem]"
    using px d(4) unfolding slot d(7)
    by (simp add: accepted_loads [OF sds] r assms(4) [symmetric])
  with at show ?thesis
    by (rule conjI)
qed

theorem WriteImage_round_trip_witness:
  "initialized example_transport \<and> (2 :: uint32) \<noteq> 0 \<and> (1 :: uint32) \<noteq> 0 \<and>
   length [1, 2, 3, 4, 5, 6 :: uint8] = unat (2 :: uint32) * unat (1 :: uint32) * 3 \<and>
   length [1, 2, 3, 4, 5, 6 :: uint8] \<le> INT32_MAX \<and>
   WriteImage 2 1 1000 0 [1, 2, 3, 4, 5, 6] example_transport
     = Inr (True, accepted 2 1 1000 0 [1, 2, 3, 4, 5, 6] example_transport) \<and>
   load_u32 (mem (accepted 2 1 1000 0 [1, 2, 3, 4, 5, 6] example_transport))
     (GetSlot (WriteIndex example_transport) example_transport + off_Width) = 2 \<and>
   load_bytes (mem (accepted 2 1 1000 0 [1, 2, 3, 4, 5, 6] example_transport))
     (GetSlot (WriteIndex example_transport) example_transport + off_PixelData)
     (unat (2 :: uint32) * unat (1 :: uint32) * 3) = [1, 2, 3, 4, 5, 6]"
proof -
  have h1: "initialized example_transport"
    by (rule example_facts)
  have h2: "(2 :: uint32) \<noteq> 0" and h3: "(1 :: uint32) \<noteq> 0"
    by simp_all
  have h4: "length [1, 2, 3, 4, 5, 6 :: uint8] = unat (2 :: uint32) * unat (1 :: uint32) * 3"
    by simp
  have h5: "length [1, 2, 3, 4, 5, 6 :: uint8] \<le> INT32_MAX"
    by (simp add: INT32_MAX_def)
  have h6: "WriteImage 2 1 1000 0 [1, 2, 3, 4, 5, 6] example_transport
              = Inr (True, accepted 2 1 1000 0 [1, 2, 3, 4, 5, 6] example_transport)"
    by (rule example_accepts) (simp_all add: Num_def)
  from WriteImage_round_trip [OF h1 h2 h3 h4 h5 h6 refl] h1 h2 h3 h4 h5 h6
  show ?thesis
    by blast
qed

text \<open>
  Claim C10. For every initialized transport and every input with width > 0, height > 0
  and a pixel buffer strictly longer than \<open>width*height*3\<close>, a successful \<open>WriteImage\<close>
  sets the slot's DataSize to \<open>width*height*3\<close>, not to the buffer's length, and copies
  only the first \<open>width*height*3\<close> bytes of the buffer into the slot's PixelData: every
  byte of memory from the end of that range on is as it was before the call.
\<close>

theorem WriteImage_ignores_excess:
  assumes "initialized s"
    and "Width \<noteq> 0" and "Height \<noteq> 0"
    and "unat Width * unat Height * 3 < length PixelData"
    and "length PixelData \<le> INT32_MAX"
    and "WriteImage Width Height Timestamp ImageType PixelData s = Inr (True, s')"
    and "Slot = GetSlot (WriteIndex s) s"
  shows "Slot = SlotDataStart s + unat (WriteIndex s * SingleSlotSize s) \<and>
         unat (load_u32 (mem s') (Slot + off_DataSize)) = unat Width * unat Height * 3 \<and>
         load_bytes (mem s') (Slot + off_PixelData) (unat Width * unat Height * 3)
           = take (unat Width * unat Height * 3) PixelData \<and>
         (\<forall>a \<ge> Slot + off_PixelData + unat Width * unat Height * 3. mem s' a = mem s a)"
proof -
  note d = WriteImage_TrueD [OF assms(1) assms(6)]
  have sds: "SlotDataStart s = Header s + 4096"
    using assms(1) by (rule initialized_SlotDataStart)
  have slot: "Slot = slot_of s"
    using assms(7) d(5) by (simp add: GetSlot_claimed)
  have "unat Width * unat Height * 3 < 2 ^ 32"
    using assms(4,5) by (simp add: INT32_MAX_def)
  then have r: "unat (Width * Height * 3) = unat Width * unat Height * 3"
    by (rule unat_RequiredSize)
  have px: "load_bytes (mem s') (Slot + off_PixelData) (unat (Width * Height * 3))
              = take (unat (Width * Height * 3)) PixelData"
    unfolding slot d(7) using sds by (rule accepted_pixels) (simp add: r less_imp_le [OF assms(4)])
  have beyond: "mem s' a = mem s a"
    if "Slot + off_PixelData + unat Width * unat Height * 3 \<le> a" for a
    unfolding d(7) using sds that by (intro accepted_beyond) (simp_all add: r slot)
  have at: "Slot = SlotDataStart s + unat (WriteIndex s * SingleSlotSize s)"
    using slot by (simp add: slot_of_def)
  have "unat (load_u32 (mem s') (Slot + off_DataSize)) = unat Width * unat Height * 3 \<and>
         load_bytes (mem s') (Slot + off_PixelData) (unat Width * unat Height * 3)
           = take (unat Width * unat Height * 3) PixelData \<and>
         (\<forall>a \<ge> Slot + off_PixelData + unat Width * unat Height * 3. mem s' a = mem s a)"
    using px beyond unfolding slot d(7)
    by (simp add: accepted_loads [OF sds] r)
  with at show ?thesis
    by (rule conjI)
qed

theorem WriteImage_ignores_excess_witness:
  "initialized example_transport \<and> (2 :: uint32) \<noteq> 0 \<and> (1 :: uint32) \<noteq> 0 \<and>
   unat (2 :: uint32) * unat (1 :: uint32) * 3 < length [1, 2, 3, 4, 5, 6, 7, 8 :: uint8] \<and>
   length [1, 2, 3, 4, 5, 6, 7, 8 :: uint8] \<le> INT32_MAX \<and>
   WriteImage 2 1 1000 0 [1, 2, 3, 4, 5, 6, 7, 8] example_transport
     = Inr (True, accepted 2 1 1000 0 [1, 2, 3, 4, 5, 6, 7, 8] example_transport) \<and>
   unat (load_u32 (mem (accepted 2 1 1000 0 [1, 2, 3, 4, 5, 6, 7, 8] example_transport))
     (GetSlot (WriteIndex example_transport) example_transport + off_DataSize)) = 6 \<and>
   load_bytes (mem (accepted 2 1 1000 0 [1, 2, 3, 4, 5, 6, 7, 8] example_transport))
     (GetSlot (WriteIndex example_transport) example_transport + off_PixelData) 6
     = [1, 2, 3, 4, 5, 6] \<and>
   mem (accepted 2 1 1000 0 [1, 2, 3, 4, 5, 6, 7, 8] example_transport)
     (GetSlot (WriteIndex example_transport) example_transport + off_PixelData + 6)
     = mem example_transport
         (GetSlot (WriteIndex example_transport) example_transport + off_PixelData + 6)"
proof -
  have h1: "initialized example_transport"
    by (rule example_facts)
  have h2: "(2 :: uint32) \<noteq> 0" and h3: "(1 :: uint32) \<noteq> 0"
    by simp_all
  have h4: "unat (2 :: uint32) * unat (1 :: uint32) * 3 < length [1, 2, 3, 4, 5, 6, 7, 8 :: uint8]"
    by simp
  have h5: "length [1, 2, 3, 4, 5, 6, 7, 8 :: uint8] \<le> INT32_MAX"
    by (simp add: INT32_MAX_def)
  have h6: "WriteImage 2 1 1000 0 [1, 2, 3, 4, 5, 6, 7, 8] example_transport
              = Inr (True, accepted 2 1 1000 0 [1, 2, 3, 4, 5, 6, 7, 8] example_transport)"
    by (rule example_accepts) (simp_all add: Num_def)
  from WriteImage_ignores_excess [OF h1 h2 h3 h4 h5 h6 refl, THEN conjunct2] h1 h2 h3 h4 h5 h6
  show ?thesis
    by simp
qed

section \<open>Rejected writes\<close>

lemma WriteImage_validation_rejects:
  assumes "Width = 0 \<or> Height = 0 \<or>
           (unat Width * unat Height * 3 < 2 ^ 32 \<and> length PixelData < unat Width * unat Height * 3)"
  shows "WriteImage Width Height Timestamp ImageType PixelData s = Inr (False, s)"
proof -
  have "Num PixelData < Width * Height * 3"
    if "unat Width * unat Height * 3 < 2 ^ 32"
      and "length PixelData < unat Width * unat Height * 3"
    using that by (simp add: Num_less_iff unat_RequiredSize)
  with assms have "Width = 0 \<or> Height = 0 \<or> Num PixelData < Width * Height * 3"
    by blast
  then show ?thesis
    by (rule WriteImage_invalid)
qed

lemma WriteImage_wrapped_size_accepted:
  "WriteImage 65536 65536 7 0 [] example_transport
     = Inr (True, accepted 65536 65536 7 0 [] example_transport)"
  "WriteIndex (accepted 65536 65536 7 0 [] example_transport) = 1"
proof -
  show "WriteImage 65536 65536 7 0 [] example_transport
          = Inr (True, accepted 65536 65536 7 0 [] example_transport)"
    by (rule example_accepts) (simp_all add: Num_def)
  show "WriteIndex (accepted 65536 65536 7 0 [] example_transport) = 1"
    using example_facts(1) by (simp add: accepted_loads initialized_SlotDataStart example_facts)
qed

text \<open>
  Claim C4. \<open>WriteImage\<close> returns false and leaves the whole state as it was (write
  index, both semaphores, every byte of the segment, the system-call trace) whenever width
  is 0, or height is 0, or \<open>width*height*3\<close> fits in 32 bits and the pixel buffer is
  shorter than that, in every state of the transport; so \<open>WriteImage(0, 10, ...)\<close>,
  \<open>WriteImage(10, 0, ...)\<close> and \<open>WriteImage(10, 10, ...)\<close> with fewer than 300 bytes are
  rejected. The required size is computed as a \<open>uint32\<close> product, though, and wraps:
  \<open>65536 * 65536 * 3\<close> is 0, so for a 65536 by 65536 frame an empty pixel buffer passes
  the size check, the write is accepted and the write index advances, where the claim
  says the call is rejected.
\<close>

theorem WriteImage_validation:
  "(Width = 0 \<or> Height = 0 \<or>
      (unat Width * unat Height * 3 < 2 ^ 32 \<and> length PixelData < unat Width * unat Height * 3)
    \<longrightarrow> WriteImage Width Height Timestamp ImageType PixelData s = Inr (False, s)) \<and>
   length ([] :: uint8 list) < unat (65536 :: uint32) * unat (65536 :: uint32) * 3 \<and>
   WriteImage 65536 65536 7 0 [] example_transport
     = Inr (True, accepted 65536 65536 7 0 [] example_transport) \<and>
   WriteIndex (accepted 65536 65536 7 0 [] example_transport) \<noteq> WriteIndex example_transport"
  using WriteImage_validation_rejects [of Width Height PixelData Timestamp ImageType s]
  by (simp add: WriteImage_wrapped_size_accepted example_facts)

theorem WriteImage_validation_witness:
  "WriteImage 0 10 5 0 (replicate 300 0) example_transport = Inr (False, example_transport) \<and>
   WriteImage 10 0 5 0 (replicate 300 0) example_transport = Inr (False, example_transport) \<and>
   unat (10 :: uint32) * unat (10 :: uint32) * 3 < 2 ^ 32 \<and>
   length (replicate 299 (0 :: uint8)) < unat (10 :: uint32) * unat (10 :: uint32) * 3 \<and>
   WriteImage 10 10 5 0 (replicate 299 0) example_transport = Inr (False, example_transport)"
proof -
  have h: "unat (10 :: uint32) * unat (10 :: uint32) * 3 < 2 ^ 32"
    "length (replicate 299 (0 :: uint8)) < unat (10 :: uint32) * unat (10 :: uint32) * 3"
    by simp_all
  have a: "WriteImage 0 10 5 0 (replicate 300 0) example_transport = Inr (False, example_transport)"
    using WriteImage_validation [of 0 10 "replicate 300 0" 5 0 example_transport] by blast
  have b: "WriteImage 10 0 5 0 (replicate 300 0) example_transport = Inr (False, example_transport)"
    using WriteImage_validation [of 10 0 "replicate 300 0" 5 0 example_transport] by blast
  have c: "WriteImage 10 10 5 0 (replicate 299 0) example_transport = Inr (False, example_transport)"
    using WriteImage_validation [of 10 10 "replicate 299 0" 5 0 example_transport] h by blast
  from a b c h show ?thesis
    by blast
qed

text \<open>
  Claim C3. The claim says a frame with \<open>width*height*3 > slotSize - subHeaderSize\<close> is
  rejected before the buffer is touched. The code has no such check. After
  \<open>Initialize(3, 64, 64)\<close> a slot is 16384 bytes and holds 16360 bytes of pixels, yet
  \<open>WriteImage(74, 74, ...)\<close> with its 16428 bytes is accepted: the copy runs 68 bytes
  past the end of slot 0, and the Width field of slot 1 then reads \<open>0xFFFFFFFF\<close>.
\<close>

theorem WriteImage_accepts_oversized_frame:
  "unat (SingleSlotSize example_transport) - unat HeaderSize = 16360 \<and>
   unat (74 * 74 * 3 :: uint32) = 16428 \<and>
   WriteImage 74 74 1000 0 (replicate 16428 255) example_transport
     = Inr (True, accepted 74 74 1000 0 (replicate 16428 255) example_transport) \<and>
   GetSlot 1 example_transport = GetSlot 0 example_transport + 16384 \<and>
   load_u32 (mem (accepted 74 74 1000 0 (replicate 16428 255) example_transport))
     (GetSlot 1 example_transport + off_Width) = 0xFFFFFFFF"
proof -
  have a: "WriteImage 74 74 1000 0 (replicate 16428 255) example_transport
          = Inr (True, accepted 74 74 1000 0 (replicate 16428 255) example_transport)"
    by (rule example_accepts) (simp_all add: Num_def)
  have sds: "SlotDataStart example_transport = 69632"
    using example_facts(1) by (simp add: initialized_SlotDataStart example_facts)
  have g: "GetSlot 1 example_transport = 86016" "GetSlot 0 example_transport = 69632"
    by (simp_all add: GetSlot_def example_facts sds word_le_nat_alt)
  have "load_bytes (mem (accepted 74 74 1000 0 (replicate 16428 255) example_transport)) 86016 4
          = take 4 (drop (86016 - 69656) (take 16428 (replicate 16428 255)))"
    by (simp add: accepted_def example_facts offsets store_u64_def Memcpy_def
        load_store_bytes_disjoint load_store_bytes_inside)
  also have "\<dots> = replicate 4 255"
    by simp
  also have "\<dots> = [255, 255, 255, 255]"
    by (simp add: eval_nat_numeral)
  finally have "load_u32 (mem (accepted 74 74 1000 0 (replicate 16428 255) example_transport))
     (86016 + off_Width) = 0xFFFFFFFF"
    by (simp add: load_u32_def offsets)
  with a g show ?thesis
    by (simp add: example_facts HeaderSize_def)
qed

theorem WriteImage_accepts_oversized_frame_witness:
  "unat (SingleSlotSize example_transport) - unat HeaderSize < unat (74 * 74 * 3 :: uint32) \<and>
   WriteImage 74 74 1000 0 (replicate 16428 255) example_transport
     = Inr (True, accepted 74 74 1000 0 (replicate 16428 255) example_transport)"
  using WriteImage_accepts_oversized_frame by simp

section \<open>Segment size\<close>

text \<open>
  Claim C7, amended. For every successful \<open>Initialize(slotCount, maxWidth, maxHeight)\<close>
  of a transport that was not yet initialized, and as long as the sizes fit the 32-bit
  fields (\<open>24 + maxWidth*maxHeight*3 + 4095 < 2^32\<close> and \<open>slotCount * slotSize < 2^32\<close>),
  the per-slot size is the slot sub-header size, 24 bytes, plus \<open>maxWidth*maxHeight*3\<close>,
  rounded up to a multiple of 4096, and the segment size is 4096 plus \<open>slotCount\<close> times
  that slot size. \<open>Initialize(3, 64, 64)\<close> gives a segment of 53248 bytes, which is also
  the value of \<open>4096 + 3 * ceil_to_4096(20 + 64*64*3)\<close>.
\<close>

theorem Initialize_segment_size:
  assumes "\<not> bIsInitialized s"
    and "Initialize os NumSlots MaxWidth MaxHeight s = (True, s')"
    and "unat HeaderSize + unat MaxWidth * unat MaxHeight * 3 + 4095 < 2 ^ 32"
    and "unat NumSlots * ceil_to_4096 (unat HeaderSize + unat MaxWidth * unat MaxHeight * 3) < 2 ^ 32"
  shows "unat HeaderSize = 24 \<and>
         unat (SingleSlotSize s') = ceil_to_4096 (unat HeaderSize + unat MaxWidth * unat MaxHeight * 3) \<and>
         unat (TotalSize s') = 4096 + unat NumSlots * unat (SingleSlotSize s')"
proof -
  have ok: "init_ok os"
    using assms(1,2) Initialize_fails [of s os NumSlots MaxWidth MaxHeight] by auto
  note eq = assms(2) [unfolded Initialize_succeeds [OF assms(1) ok]]
  have slot: "SingleSlotSize s' = (HeaderSize + MaxWidth * MaxHeight * 3 + 4095) AND NOT 4095"
    using eq by auto
  have total: "TotalSize s' = 4096 + ucast (SingleSlotSize s' * NumSlots)"
    using eq by auto
  have u: "unat (SingleSlotSize s') = ceil_to_4096 (unat HeaderSize + unat MaxWidth * unat MaxHeight * 3)"
    unfolding slot using assms(3) by (rule unat_slot_size)
  have "unat (SingleSlotSize s') * unat NumSlots < 2 ^ LENGTH(32)"
    using assms(4) by (simp add: u mult.commute)
  then have "unat (SingleSlotSize s' * NumSlots) = unat (SingleSlotSize s') * unat NumSlots"
    by (simp only: unat_mult_lem)
  then have "unat (TotalSize s') = 4096 + unat NumSlots * unat (SingleSlotSize s')"
    unfolding total by (simp add: unat_segment_size)
  with u show ?thesis
    by (simp add: HeaderSize_def)
qed

theorem Initialize_segment_size_witness:
  "\<not> bIsInitialized fresh_transport \<and>
   Initialize example_os 3 64 64 fresh_transport = (True, example_transport) \<and>
   unat HeaderSize + unat (64 :: uint32) * unat (64 :: uint32) * 3 + 4095 < 2 ^ 32 \<and>
   unat (3 :: uint32) * ceil_to_4096 (unat HeaderSize + unat (64 :: uint32) * unat (64 :: uint32) * 3)
     < 2 ^ 32 \<and>
   unat (SingleSlotSize example_transport) = 16384 \<and>
   unat (TotalSize example_transport) = 53248 \<and>
   4096 + 3 * ceil_to_4096 (20 + 64 * 64 * 3) = 53248"
proof -
  have h1: "\<not> bIsInitialized fresh_transport"
    by (simp add: fresh_transport_def)
  have h2: "Initialize example_os 3 64 64 fresh_transport = (True, example_transport)"
    by (rule example_Initialize)
  have h3: "unat HeaderSize + unat (64 :: uint32) * unat (64 :: uint32) * 3 + 4095 < 2 ^ 32"
    by (simp add: HeaderSize_def)
  have h4: "unat (3 :: uint32) *
      ceil_to_4096 (unat HeaderSize + unat (64 :: uint32) * unat (64 :: uint32) * 3) < 2 ^ 32"
    by (simp add: HeaderSize_def ceil_to_4096_def)
  from Initialize_segment_size [OF h1 h2 h3 h4] h1 h2 h3 h4
  show ?thesis
    by (simp add: ceil_to_4096_def)
qed

text \<open>
  Outside these conditions the sizes differ: for a 65536 by 65536 frame the 32-bit product
  wraps to 0 and the slot is one page; and \<open>Initialize(5, 10, 10)\<close> on a transport
  already initialized with \<open>(3, 64, 64)\<close> succeeds and keeps the 16384-byte slots.
\<close>

theorem Initialize_segment_size_counterexample:
  "fst (Initialize example_os 1 65536 65536 fresh_transport) \<and>
   unat (SingleSlotSize (snd (Initialize example_os 1 65536 65536 fresh_transport))) = 4096 \<and>
   ceil_to_4096 (unat HeaderSize + unat (65536 :: uint32) * unat (65536 :: uint32) * 3)
     = 12884905984 \<and>
   fst (Initialize example_os 5 10 10 example_transport) \<and>
   unat (SingleSlotSize (snd (Initialize example_os 5 10 10 example_transport))) = 16384 \<and>
   ceil_to_4096 (unat HeaderSize + unat (10 :: uint32) * unat (10 :: uint32) * 3) = 4096"
proof -
  have a: "\<not> bIsInitialized fresh_transport"
    by (simp add: fresh_transport_def)
  have b: "init_ok example_os"
    by (simp add: init_ok_def example_os_def MAP_FAILED_def)
  have c: "bIsInitialized example_transport"
    by (rule example_initialized)
  show ?thesis
    by (simp add: Initialize_succeeds [OF a b] Initialize_already [OF c] example_facts
        HeaderSize_def ceil_to_4096_def)
qed

section \<open>Runs\<close>

lemma timed_out_fields [simp]:
  "initialized (timed_out s) = initialized s"
  "WriteIndex (timed_out s) = WriteIndex s"
  "MaxSlots (timed_out s) = MaxSlots s"
  "sem_value (timed_out s) = sem_value s"
  "syscalls (timed_out s) = syscalls s @ [Sys_sem_timedwait WriteSem]"
  "clock (timed_out s) = wait_deadline (clock s)"
  by (simp_all add: timed_out_def sys_def initialized_def)

lemma consumer_fields [simp]:
  "initialized (s\<lparr>sem_value := sv\<rparr>) = initialized s"
  by (simp add: initialized_def)

lemma WriteImage_FalseD:
  assumes "initialized s" "0 < sem_value s WriteSem \<longrightarrow> WriteIndex s < MaxSlots s"
    and "WriteImage W H T Ty P s = Inr (False, s')"
  shows "s' = s \<or> (s' = timed_out s \<and> sem_value s WriteSem = 0)"
proof (cases "W = 0 \<or> H = 0 \<or> Num P < W * H * 3")
  case True
  then show ?thesis
    using assms(3) by (simp add: WriteImage_invalid)
next
  case False
  show ?thesis
  proof (cases "sem_value s WriteSem = 0")
    case True
    then show ?thesis
      using assms(1,3) False by (simp add: WriteImage_no_permit)
  next
    case permit: False
    then have "WriteImage W H T Ty P s =
           (if accessible s (slot_of s) (off_PixelData + unat (W * H * 3))
            then Inr (True, accepted W H T Ty P s) else Inl SegmentationFault)"
      using assms(1,2) False by (intro WriteImage_proceeds) simp_all
    then show ?thesis
      using assms(3) by (simp split: if_splits)
  qed
qed

lemma ring_step:
  fixes N :: uint32
  assumes "N \<noteq> 0" "x = of_nat (k mod unat N)"
  shows "x < N" and "(x + 1) mod N = of_nat (Suc k mod unat N)"
proof -
  have n: "0 < unat N"
    using assms(1) by (simp add: unat_gt_0)
  have lt: "k mod unat N < unat N"
    using n by simp
  have "unat N < 2 ^ 32"
    using unsigned_less [of N] by simp
  with lt have ux: "unat x = k mod unat N"
    by (simp add: assms(2) unsigned_of_nat take_bit_nat_eq_self)
  show "x < N"
    using lt by (simp add: word_less_nat_alt ux)
  have "unat x + unat (1 :: uint32) < 2 ^ LENGTH(32)"
    using lt \<open>unat N < 2 ^ 32\<close> by (simp add: ux)
  then have "unat (x + 1) = unat x + unat (1 :: uint32)"
    by (simp only: unat_add_lem)
  then have "unat ((x + 1) mod N) = Suc k mod unat N"
    by (simp add: unat_mod ux mod_Suc_eq)
  then have "of_nat (unat ((x + 1) mod N)) = (of_nat (Suc k mod unat N) :: uint32)"
    by simp
  then show "(x + 1) mod N = of_nat (Suc k mod unat N)"
    by simp
qed

lemma ring_sequence_Suc:
  "f k # map (\<lambda>j. f (Suc k + j)) [0..<n] = map (\<lambda>j. f (k + j)) [0..<Suc n]"
proof -
  have "[0..<Suc n] = 0 # map Suc [0..<n]"
    by (simp add: upt_conv_Cons map_Suc_upt del: upt_Suc)
  then show ?thesis
    by (simp add: comp_def del: upt_Suc)
qed

lemma run_ring:
  assumes "N \<noteq> 0"
  shows "initialized s \<Longrightarrow> MaxSlots s = N \<Longrightarrow> WriteIndex s = of_nat (k mod unat N) \<Longrightarrow>
     fst (run es s) = map (\<lambda>j. of_nat ((k + j) mod unat N)) [0..<length (fst (run es s))] \<and>
     (\<forall>s1. snd (run es s) = Inr s1 \<longrightarrow>
        initialized s1 \<and> MaxSlots s1 = N \<and>
        WriteIndex s1 = of_nat ((k + length (fst (run es s))) mod unat N))"
proof (induction es arbitrary: s k)
  case Nil
  then show ?case by simp
next
  case (Cons e es)
  show ?case
  proof (cases e)
    case (Consumer sv)
    have "initialized (s\<lparr>sem_value := sv\<rparr>)" "MaxSlots (s\<lparr>sem_value := sv\<rparr>) = N"
      "WriteIndex (s\<lparr>sem_value := sv\<rparr>) = of_nat (k mod unat N)"
      using Cons.prems by simp_all
    from Cons.IH [OF this] show ?thesis
      by (simp add: Consumer)
  next
    case (Write W H T Ty P)
    have idx: "WriteIndex s < MaxSlots s"
      using ring_step(1) [OF assms Cons.prems(3)] Cons.prems(2) by simp
    show ?thesis
    proof (cases "WriteImage W H T Ty P s")
      case (Inl f)
      then show ?thesis
        by (simp add: Write)
    next
      case (Inr r)
      obtain ok s' where r: "r = (ok, s')"
        by (cases r)
      show ?thesis
      proof (cases ok)
        case True
        then have w: "WriteImage W H T Ty P s = Inr (True, s')"
          using Inr r by simp
        have s': "s' = accepted W H T Ty P s"
          using WriteImage_TrueD(7) [OF Cons.prems(1) w] .
        have sds: "SlotDataStart s = Header s + 4096"
          using Cons.prems(1) by (rule initialized_SlotDataStart)
        have a: "initialized s'" "MaxSlots s' = N"
          using Cons.prems(1,2) by (simp_all add: s')
        have b: "WriteIndex s' = of_nat (Suc k mod unat N)"
          using ring_step(2) [OF assms Cons.prems(3)] Cons.prems(2)
          by (simp add: s' accepted_loads(7) [OF sds])
        note ih = Cons.IH [OF a b]
        have "fst (run (e # es) s) = WriteIndex s # fst (run es s')"
          and "snd (run (e # es) s) = snd (run es s')"
          using w by (simp_all add: Write)
        moreover have "WriteIndex s # map (\<lambda>j. of_nat ((Suc k + j) mod unat N)) [0..<length (fst (run es s'))]
            = map (\<lambda>j. of_nat ((k + j) mod unat N)) [0..<Suc (length (fst (run es s')))]"
          using ring_sequence_Suc [of "\<lambda>i. (of_nat (i mod unat N) :: uint32)" k]
          by (simp add: Cons.prems(3) del: upt_Suc)
        ultimately show ?thesis
          using ih by (simp del: upt_Suc)
      next
        case False
        then have w: "WriteImage W H T Ty P s = Inr (False, s')"
          using Inr r by simp
        have "s' = s \<or> (s' = timed_out s \<and> sem_value s WriteSem = 0)"
          using Cons.prems(1) idx w by (intro WriteImage_FalseD) simp_all
        then have "initialized s'" "MaxSlots s' = N" "WriteIndex s' = of_nat (k mod unat N)"
          using Cons.prems by auto
        from Cons.IH [OF this] show ?thesis
          using w by (simp add: Write)
      qed
    qed
  qed
qed


subsection \<open>The end-to-end scenario\<close>

lemma accepted_frame [simp]:
  "mapping (accepted W H T Ty P s) = mapping s"
  "SlotDataStart (accepted W H T Ty P s) = SlotDataStart s"
  by (simp_all add: accepted_def)

lemma example_stage:
  assumes "initialized s" "MaxSlots s = 3" "SingleSlotSize s = 16384"
    and "SlotDataStart s = 69632" "mapping s = Some (65536, 53248)"
    and "WriteIndex s = k" "k = 0 \<or> k = 1 \<or> k = 2" "0 < sem_value s WriteSem"
  shows "WriteImage 64 64 1000 0 (replicate 12288 255) s
           = Inr (True, accepted 64 64 1000 0 (replicate 12288 255) s)"
    and "WriteIndex (accepted 64 64 1000 0 (replicate 12288 255) s) = (k + 1) mod 3"
proof -
  have idx: "WriteIndex s < MaxSlots s"
    using assms(2,6,7) by (auto simp add: word_less_nat_alt)
  have "accessible s (slot_of s) (off_PixelData + unat (64 * 64 * 3 :: uint32))"
    using assms(3,4,5,6,7) by (auto simp add: accessible_def slot_of_def offsets)
  moreover have "WriteImage 64 64 1000 0 (replicate 12288 255) s =
      (if accessible s (slot_of s) (off_PixelData + unat (64 * 64 * 3 :: uint32))
       then Inr (True, accepted 64 64 1000 0 (replicate 12288 255) s) else Inl SegmentationFault)"
    using assms(1,8) idx by (intro WriteImage_proceeds) (simp_all add: Num_def)
  ultimately show "WriteImage 64 64 1000 0 (replicate 12288 255) s
           = Inr (True, accepted 64 64 1000 0 (replicate 12288 255) s)"
    by simp
  show "WriteIndex (accepted 64 64 1000 0 (replicate 12288 255) s) = (k + 1) mod 3"
    using assms(1,2,6) by (simp add: accepted_loads(7) initialized_SlotDataStart)
qed

lemma scenario_writes:
  "WriteImage 64 64 1000 0 (replicate 12288 255) example_transport
     = Inr (True, accepted 64 64 1000 0 (replicate 12288 255) example_transport)"
  "WriteIndex (accepted 64 64 1000 0 (replicate 12288 255) example_transport) = 1"
  "WriteImage 64 64 1000 0 (replicate 12288 255)
       (accepted 64 64 1000 0 (replicate 12288 255) example_transport)
     = Inr (True, accepted 64 64 1000 0 (replicate 12288 255)
                    (accepted 64 64 1000 0 (replicate 12288 255) example_transport))"
  "WriteIndex (accepted 64 64 1000 0 (replicate 12288 255)
                 (accepted 64 64 1000 0 (replicate 12288 255) example_transport)) = 2"
  "WriteImage 64 64 1000 0 (replicate 12288 255)
       (accepted 64 64 1000 0 (replicate 12288 255)
         (accepted 64 64 1000 0 (replicate 12288 255) example_transport))
     = Inr (True, three_frames_written)"
  "WriteIndex three_frames_written = 0"
  "WriteImage 64 64 1000 0 (replicate 12288 255) three_frames_written
     = Inr (False, timed_out three_frames_written)"
  "WriteImage 64 64 1000 0 (replicate 12288 255) (three_frames_written\<lparr>sem_value := one_permit\<rparr>)
     = Inr (True, accepted 64 64 1000 0 (replicate 12288 255)
                    (three_frames_written\<lparr>sem_value := one_permit\<rparr>))"
proof -
  let ?P = "replicate 12288 (255 :: uint8)"
  let ?s1 = "accepted 64 64 1000 0 ?P example_transport"
  let ?s2 = "accepted 64 64 1000 0 ?P ?s1"
  have sds: "SlotDataStart example_transport = 69632"
    using example_facts(1) by (simp add: initialized_SlotDataStart example_facts)
  show w0: "WriteImage 64 64 1000 0 ?P example_transport = Inr (True, ?s1)"
    and i1: "WriteIndex ?s1 = 1"
    using example_stage [of example_transport 0] by (simp_all add: example_facts sds)
  show w1: "WriteImage 64 64 1000 0 ?P ?s1 = Inr (True, ?s2)"
    and i2: "WriteIndex ?s2 = 2"
    using example_stage [of ?s1 1] i1 by (simp_all add: example_facts sds)
  show w2: "WriteImage 64 64 1000 0 ?P ?s2 = Inr (True, three_frames_written)"
    and i3: "WriteIndex three_frames_written = 0"
    unfolding three_frames_written_def
    using example_stage [of ?s2 2] i2 by (simp_all add: example_facts sds)
  show "WriteImage 64 64 1000 0 ?P three_frames_written
          = Inr (False, timed_out three_frames_written)"
    by (rule WriteImage_no_permit)
      (simp_all add: three_frames_written_def example_facts Num_def)
  show "WriteImage 64 64 1000 0 ?P (three_frames_written\<lparr>sem_value := one_permit\<rparr>)
     = Inr (True, accepted 64 64 1000 0 ?P (three_frames_written\<lparr>sem_value := one_permit\<rparr>))"
    using example_stage(1) [of "three_frames_written\<lparr>sem_value := one_permit\<rparr>" 0] i3
    by (simp add: three_frames_written_def example_facts sds one_permit_def)
qed


lemma scenario_wrap:
  "fst (run [full_frame, full_frame, full_frame, Consumer one_permit, full_frame]
          example_transport) = [0, 1, 2, 0]"
  by (simp add: full_frame_def scenario_writes example_facts)

section \<open>The write index\<close>

text \<open>
  Claim C2, amended. When \<open>slotCount\<close> is at least 1: \<open>Initialize\<close> sets the header's
  write index to 0; every slot claim returns the current index and replaces it by
  \<open>(current + 1) mod slotCount\<close>; over any run of producer calls and consumer steps that
  starts from a fresh \<open>Initialize\<close>, the indices claimed by the accepted writes are
  0, 1, ..., slotCount-1, 0, 1, ... in this order (the accepted write number k, counted
  from 0, claims \<open>k mod slotCount\<close>); and at the end of every such run, hence always, the
  write index is below \<open>slotCount\<close>.
\<close>

theorem WriteIndex_ring:
  assumes "\<not> bIsInitialized s"
    and "Initialize os NumSlots MaxWidth MaxHeight s = (True, s0)"
    and "mmap_result os \<noteq> nullptr"
    and "NumSlots \<noteq> 0"
  shows "WriteIndex s0 = 0 \<and>
         fst (run es s0)
           = map (\<lambda>k. of_nat (k mod unat NumSlots)) [0..<length (fst (run es s0))] \<and>
         (\<forall>s1. snd (run es s0) = Inr s1 \<longrightarrow> WriteIndex s1 < NumSlots \<and> MaxSlots s1 = NumSlots) \<and>
         (\<forall>t. initialized t \<and> MaxSlots t = NumSlots \<longrightarrow>
            (\<exists>t'. GetNextWriteIndex t = Inr (WriteIndex t, t') \<and>
                  WriteIndex t' = (WriteIndex t + 1) mod NumSlots))"
proof -
  note e = Initialize_establishes [OF assms(1,2,3)]
  have z: "WriteIndex s0 = of_nat (0 mod unat NumSlots)"
    using e(3) by simp
  note r = run_ring [OF assms(4) e(1) e(2) z, of es]
  have seq: "fst (run es s0)
      = map (\<lambda>k. of_nat (k mod unat NumSlots)) [0..<length (fst (run es s0))]"
    using r by simp
  have fin: "WriteIndex s1 < NumSlots \<and> MaxSlots s1 = NumSlots" if "snd (run es s0) = Inr s1" for s1
    using r that ring_step(1) [OF assms(4) refl] by auto
  have claim: "\<exists>t'. GetNextWriteIndex t = Inr (WriteIndex t, t') \<and>
                  WriteIndex t' = (WriteIndex t + 1) mod NumSlots"
    if "initialized t \<and> MaxSlots t = NumSlots" for t
  proof -
    have "accessible t (Header t) 24" and "MaxSlots t \<noteq> 0"
      using that assms(4) by (simp_all add: initialized_header_accessible)
    then have "GetNextWriteIndex t =
           Inr (WriteIndex t,
                t\<lparr>mem := store_u32 (Header t + off_WriteIndex)
                           ((WriteIndex t + 1) mod MaxSlots t) (mem t)\<rparr>)"
      by (rule GetNextWriteIndex_ok)
    moreover have "WriteIndex (t\<lparr>mem := store_u32 (Header t + off_WriteIndex)
                           ((WriteIndex t + 1) mod MaxSlots t) (mem t)\<rparr>)
        = (WriteIndex t + 1) mod MaxSlots t"
      by (simp add: WriteIndex_def load_u32_def store_u32_def load_store_bytes_same)
    ultimately show ?thesis
      using that by simp
  qed
  show ?thesis
    using e(3) seq fin claim by blast
qed

theorem WriteIndex_ring_witness:
  "\<not> bIsInitialized fresh_transport \<and>
   Initialize example_os 3 64 64 fresh_transport = (True, example_transport) \<and>
   mmap_result example_os \<noteq> nullptr \<and> (3 :: uint32) \<noteq> 0 \<and>
   WriteIndex example_transport = 0 \<and>
   fst (run [full_frame, full_frame, full_frame, Consumer one_permit, full_frame]
          example_transport) = [0, 1, 2, 0]"
proof -
  have h1: "\<not> bIsInitialized fresh_transport"
    by (simp add: fresh_transport_def)
  have h2: "Initialize example_os 3 64 64 fresh_transport = (True, example_transport)"
    by (rule example_Initialize)
  have h3: "mmap_result example_os \<noteq> nullptr"
    by (simp add: example_os_def nullptr_def)
  have h4: "(3 :: uint32) \<noteq> 0"
    by simp
  have len: "length (fst (run [full_frame, full_frame, full_frame, Consumer one_permit, full_frame]
          example_transport)) = 4"
    by (simp add: scenario_wrap)
  have seq: "map (\<lambda>k. (of_nat (k mod unat (3 :: uint32)) :: uint32)) [0..<4] = [0, 1, 2, 0]"
    by (simp add: upt_rec)
  from WriteIndex_ring [OF h1 h2 h3 h4,
      of "[full_frame, full_frame, full_frame, Consumer one_permit, full_frame]"]
  have "WriteIndex example_transport = 0"
    and "fst (run [full_frame, full_frame, full_frame, Consumer one_permit, full_frame]
          example_transport) = [0, 1, 2, 0]"
    unfolding len seq by simp_all
  with h1 h2 h3 h4 show ?thesis
    by blast
qed

text \<open>
  With no slot at all the bound fails: \<open>Initialize(0, 64, 64)\<close> succeeds and leaves
  the write index 0, which is not below a slot count of 0.
\<close>

theorem WriteIndex_ring_counterexample:
  "fst (Initialize example_os 0 64 64 fresh_transport) \<and>
   \<not> WriteIndex (snd (Initialize example_os 0 64 64 fresh_transport))
       < MaxSlots (snd (Initialize example_os 0 64 64 fresh_transport))"
proof -
  have a: "\<not> bIsInitialized fresh_transport"
    by (simp add: fresh_transport_def)
  have b: "init_ok example_os"
    by (simp add: init_ok_def example_os_def MAP_FAILED_def)
  show ?thesis
    by (simp add: Initialize_succeeds [OF a b])
qed

section \<open>Backpressure\<close>









section \<open>Facts about the packing loop\<close>

lemma poke_cases:
  "poke v (p, buf) = (if p < length buf then Inr (p + 1, buf[p := v]) else Inl SegmentationFault)"
  by (simp add: poke_def)

lemma pack_bmp_total:
  "p + 3 * length items \<le> length buf \<Longrightarrow>
   pack_bmp items (p, buf)
     = Inr (p + 3 * length items,
            take p buf @ concat (map (\<lambda>c. [B c, G c, R c]) items)
              @ drop (p + 3 * length items) buf)"
proof (induction items arbitrary: p buf)
  case Nil
  then show ?case by simp
next
  case (Cons item items)
  let ?b = "buf[p := B item, Suc p := G item, Suc (Suc p) := R item]"
  have p: "p + 2 < length buf"
    using Cons.prems by simp
  have "Suc (Suc (Suc p)) + 3 * length items \<le> length ?b"
    using Cons.prems by simp
  note ih = Cons.IH [OF this]
  have t: "take (Suc (Suc (Suc p))) ?b = take p buf @ [B item, G item, R item]"
    using p by (simp add: take_Suc_conv_app_nth)
  have d: "drop (Suc (Suc (Suc p)) + 3 * length items) ?b
             = drop (p + 3 * length (item # items)) buf"
  proof -
    have e: "Suc (Suc (Suc p)) + 3 * length items = p + 3 * length (item # items)"
      by simp
    have "drop (Suc (Suc (Suc p)) + 3 * length items) ?b
            = drop (Suc (Suc (Suc p)) + 3 * length items) buf"
      by simp
    then show ?thesis
      unfolding e .
  qed
  have "pack_bmp (item # items) (p, buf) = pack_bmp items (Suc (Suc (Suc p)), ?b)"
    using p by (simp add: poke_cases)
  then show ?case
    unfolding ih t d by simp
qed

lemma DoWork_entry_packable:
  assumes "packable p r"
  shows "DoWork_entry ext p r = Inr (packed r)"
proof -
  have c: "\<not> pixels_as_float p" "\<not> compress p" "width r \<noteq> 0" "height r \<noteq> 0"
    and n: "width r * height r * 3 = int (3 * length (bmp r))"
    and m: "width r * height r * 3 \<le> int INT32_MAX"
    using assms by (simp_all add: packable_def)
  obtain buf where alloc: "SetNumUninitialized (uninitialized_uint8 ext)
      (width r * height r * 3) (image_data_uint8 r) = Inr buf"
    and len: "length buf = 3 * length (bmp r)"
    using m unfolding n by (simp add: SetNumUninitialized_def)
  have "pack_bmp (bmp r) (0, buf)
     = Inr (0 + 3 * length (bmp r),
            take 0 buf @ concat (map (\<lambda>c. [B c, G c, R c]) (bmp r))
              @ drop (0 + 3 * length (bmp r)) buf)"
    by (rule pack_bmp_total) (simp add: len)
  then have "pack_bmp (bmp r) (0, buf)
     = Inr (3 * length (bmp r), concat (map (\<lambda>c. [B c, G c, R c]) (bmp r)))"
    by (simp add: len)
  then show ?thesis
    using c alloc by (simp add: DoWork_entry_def packed_def)
qed

lemma DoWork_loop_step:
  assumes "i < n" "i < length rs" "i < length ps" "packable (ps ! i) (rs ! i)"
  shows "DoWork_loop ext i n ps rs = DoWork_loop ext (i + 1) n ps (rs[i := packed (rs ! i)])"
  using assms by (subst DoWork_loop.simps) (simp add: DoWork_entry_packable)

lemma DoWork_loop_all:
  "n = length rs \<Longrightarrow> length ps = length rs \<Longrightarrow>
   \<forall>j. i \<le> j \<and> j < n \<longrightarrow> packable (ps ! j) (rs ! j) \<Longrightarrow>
   DoWork_loop ext i n ps rs = Inr (take i rs @ map packed (drop i rs))"
proof (induction ext i n ps rs rule: DoWork_loop.induct)
  case (1 ext i n ps rs)
  show ?case
  proof (cases "i < n")
    case False
    then show ?thesis
      using "1.prems"(1) by (simp add: DoWork_loop.simps)
  next
    case True
    have bounds: "\<not> (length rs \<le> i \<or> length ps \<le> i)"
      using True "1.prems"(1,2) by simp
    have pk: "packable (ps ! i) (rs ! i)"
      using True "1.prems"(3) by simp
    have e: "DoWork_entry ext (ps ! i) (rs ! i) = Inr (packed (rs ! i))"
      using pk by (rule DoWork_entry_packable)
    let ?rs = "rs[i := packed (rs ! i)]"
    have "\<forall>j. i + 1 \<le> j \<and> j < n \<longrightarrow> packable (ps ! j) (?rs ! j)"
      using "1.prems"(3) by simp
    moreover have "n = length ?rs" "length ps = length ?rs"
      using "1.prems"(1,2) by simp_all
    ultimately have ih: "DoWork_loop ext (i + 1) n ps ?rs
        = Inr (take (i + 1) ?rs @ map packed (drop (i + 1) ?rs))"
      using "1.IH" [OF True bounds e] by blast
    have i: "i < length rs"
      using bounds by simp
    have "take (i + 1) ?rs = take i rs @ [packed (rs ! i)]"
      using i by (simp add: take_Suc_conv_app_nth)
    moreover have "drop (i + 1) ?rs = drop (Suc i) rs"
      by simp
    moreover have "drop i rs = rs ! i # drop (Suc i) rs"
      using i by (simp add: Cons_nth_drop_Suc)
    ultimately have "take (i + 1) ?rs @ map packed (drop (i + 1) ?rs)
        = take i rs @ map packed (drop i rs)"
      by simp
    moreover have "DoWork_loop ext i n ps rs = DoWork_loop ext (i + 1) n ps ?rs"
      using True i bounds pk by (intro DoWork_loop_step) simp_all
    ultimately show ?thesis
      using ih by simp
  qed
qed

lemma DoWork_entry_skips_uint8:
  "\<not> pixels_as_float p \<Longrightarrow> width r = 0 \<or> height r = 0 \<Longrightarrow> DoWork_entry ext p r = Inr r"
  by (auto simp: DoWork_entry_def)

section \<open>The packing task\<close>

text \<open>
  Claim C8, amended. For every batch entry whose pixels are not floating-point, for which
  compression was not requested, whose width and height are nonzero, whose source bitmap
  holds exactly \<open>width*height\<close> pixels and whose \<open>width*height*3\<close> is at most
  \<open>INT32_MAX\<close>, the output buffer receives exactly 3 bytes per source pixel in B, G, R
  order (blue byte first) and nothing else: \<open>DoWork_entry\<close> returns the entry with that
  buffer, the rest of the entry as it was; the loop of \<open>DoWork\<close>, at such an entry, stores
  it at its index and goes on with the next one; and \<open>DoWork\<close> on a batch of such entries
  returns, with every entry packed.
\<close>

theorem DoWork_packs_three_bytes_per_pixel:
  "(packable p r \<longrightarrow> DoWork_entry ext p r = Inr (packed r)) \<and>
   (i < n \<and> i < length rs \<and> i < length ps \<and> packable (ps ! i) (rs ! i) \<longrightarrow>
      DoWork_loop ext i n ps rs = DoWork_loop ext (i + 1) n ps (rs[i := packed (rs ! i)])) \<and>
   (ReqSize t = length (Results t) \<and> length (Params t) = length (Results t) \<and>
      (\<forall>j < ReqSize t. packable (Params t ! j) (Results t ! j)) \<longrightarrow>
      DoWork ext t = Inr (t\<lparr>Results := map packed (Results t)\<rparr>)) \<and>
   (image_data_uint8 (packed r) = concat (map (\<lambda>c. [B c, G c, R c]) (bmp r)) \<and>
    length (image_data_uint8 (packed r)) = 3 * length (bmp r))"
proof -
  have batch: "DoWork ext t = Inr (t\<lparr>Results := map packed (Results t)\<rparr>)"
    if "ReqSize t = length (Results t) \<and> length (Params t) = length (Results t) \<and>
      (\<forall>j < ReqSize t. packable (Params t ! j) (Results t ! j))"
  proof -
    have "DoWork_loop ext 0 (ReqSize t) (Params t) (Results t)
            = Inr (take 0 (Results t) @ map packed (drop 0 (Results t)))"
      using that by (intro DoWork_loop_all) simp_all
    then show ?thesis
      by (simp add: DoWork_def)
  qed
  have len: "length (concat (map (\<lambda>c. [B c, G c, R c]) xs)) = 3 * length xs" for xs :: "FColor list"
    by (induction xs) simp_all
  show ?thesis
    using batch by (simp add: DoWork_entry_packable DoWork_loop_step packed_def len)
qed

lemma two_pixels_packable: "packable uncompressed two_pixels" "packable uncompressed one_pixel"
  by (simp_all add: packable_def uncompressed_def two_pixels_def one_pixel_def INT32_MAX_def)

theorem DoWork_packs_three_bytes_per_pixel_witness:
  "packable uncompressed two_pixels \<and>
   DoWork_entry example_externals uncompressed two_pixels
     = Inr (two_pixels\<lparr>image_data_uint8 := [3, 2, 1, 6, 5, 4]\<rparr>) \<and>
   ReqSize two_pixel_task = length (Results two_pixel_task) \<and>
   length (Params two_pixel_task) = length (Results two_pixel_task) \<and>
   packable (Params two_pixel_task ! 0) (Results two_pixel_task ! 0) \<and>
   packable (Params two_pixel_task ! 1) (Results two_pixel_task ! 1) \<and>
   DoWork example_externals two_pixel_task
     = Inr (two_pixel_task\<lparr>Results := [two_pixels\<lparr>image_data_uint8 := [3, 2, 1, 6, 5, 4]\<rparr>,
                                          one_pixel\<lparr>image_data_uint8 := [3, 2, 1]\<rparr>]\<rparr>)"
proof -
  have h1: "packable uncompressed two_pixels"
    by (rule two_pixels_packable)
  have h2: "ReqSize two_pixel_task = length (Results two_pixel_task)"
    "length (Params two_pixel_task) = length (Results two_pixel_task)"
    by (simp_all add: two_pixel_task_def)
  have h3: "packable (Params two_pixel_task ! 0) (Results two_pixel_task ! 0)"
    "packable (Params two_pixel_task ! 1) (Results two_pixel_task ! 1)"
    by (simp_all add: two_pixel_task_def two_pixels_packable)
  have h4: "\<forall>j < ReqSize two_pixel_task.
      packable (Params two_pixel_task ! j) (Results two_pixel_task ! j)"
    using h3 by (simp add: two_pixel_task_def less_Suc_eq numeral_2_eq_2)
  have p2: "packed two_pixels = two_pixels\<lparr>image_data_uint8 := [3, 2, 1, 6, 5, 4]\<rparr>"
    and p1: "packed one_pixel = one_pixel\<lparr>image_data_uint8 := [3, 2, 1]\<rparr>"
    by (simp_all add: packed_def two_pixels_def one_pixel_def)
  note t = DoWork_packs_three_bytes_per_pixel
    [of uncompressed two_pixels example_externals 0 0 "[]" "[]" two_pixel_task]
  have a: "DoWork_entry example_externals uncompressed two_pixels
     = Inr (two_pixels\<lparr>image_data_uint8 := [3, 2, 1, 6, 5, 4]\<rparr>)"
    using t h1 by (simp add: p2)
  have b: "DoWork example_externals two_pixel_task
     = Inr (two_pixel_task\<lparr>Results := [two_pixels\<lparr>image_data_uint8 := [3, 2, 1, 6, 5, 4]\<rparr>,
                                          one_pixel\<lparr>image_data_uint8 := [3, 2, 1]\<rparr>]\<rparr>)"
  proof -
    have "DoWork example_externals two_pixel_task
        = Inr (two_pixel_task\<lparr>Results := map packed (Results two_pixel_task)\<rparr>)"
      using t h2 h4 by blast
    then show ?thesis
      by (simp add: two_pixel_task_def p1 p2)
  qed
  from a b h1 h2 h3 show ?thesis
    by blast
qed

lemma one_pixel_DoWork:
  "DoWork example_externals one_pixel_task
     = Inr (one_pixel_task\<lparr>Results := [one_pixel\<lparr>image_data_uint8 := [3, 2, 1]\<rparr>]\<rparr>)"
  by (simp add: DoWork_def one_pixel_task_def DoWork_loop.simps DoWork_entry_def
      uncompressed_def one_pixel_def SetNumUninitialized_def INT32_MAX_def example_externals_def
      poke_def numeral_3_eq_3)

lemma short_source_DoWork_entry:
  "DoWork_entry example_externals uncompressed short_source
     = Inr (short_source\<lparr>image_data_uint8 := [3, 2, 1, 0, 0, 0]\<rparr>)"
  by (simp add: DoWork_entry_def uncompressed_def short_source_def SetNumUninitialized_def
      INT32_MAX_def example_externals_def poke_def upt_rec)

lemma huge_source_DoWork_entry:
  "DoWork_entry example_externals uncompressed huge_source = Inl CheckFailed"
  by (simp add: DoWork_entry_def uncompressed_def huge_source_def SetNumUninitialized_def
      INT32_MAX_def)

text \<open>
  Red does not come first: for the pixel with R = 1, G = 2, B = 3 the output is 3, 2, 1.
  The buffer has \<open>width * height * 3\<close> bytes whatever the source holds: a 2 by 1 entry
  with one source pixel gets 6 bytes, the last 3 never written. And for a source of
  1000000 by 1000 pixels the size does not fit an \<open>int\<close>, and nothing is packed.
\<close>

theorem DoWork_packs_three_bytes_per_pixel_counterexample:
  "DoWork example_externals one_pixel_task
     = Inr (one_pixel_task\<lparr>Results := [one_pixel\<lparr>image_data_uint8 := [3, 2, 1]\<rparr>]\<rparr>) \<and>
   [R (hd (bmp one_pixel)), G (hd (bmp one_pixel)), B (hd (bmp one_pixel))] = [1, 2, 3] \<and>
   DoWork_entry example_externals uncompressed short_source
     = Inr (short_source\<lparr>image_data_uint8 := [3, 2, 1, 0, 0, 0]\<rparr>) \<and>
   length (bmp short_source) = 1 \<and>
   DoWork_entry example_externals uncompressed huge_source = Inl CheckFailed \<and>
   int (length (bmp huge_source)) = width huge_source * height huge_source"
  by (simp add: one_pixel_DoWork short_source_DoWork_entry huge_source_DoWork_entry)
    (simp add: one_pixel_def short_source_def huge_source_def)

text \<open>
  Claim C9. The claim says that \<open>DoWork\<close> skips every entry with width 0 or height 0.
  The code has this guard on the 8-bit path only: there such an entry is left as it is and
  the loop goes on with the next entry. A floating-point entry is not guarded: its float
  buffer is resized to \<open>width*height = 0\<close> elements and the loop over \<open>bmp_float\<close>
  still stores through the data pointer. With one sample that is a store past the end of
  the buffer, and the entries after it are not processed; with no sample, what the buffer
  held is discarded.
\<close>

theorem DoWork_zero_dimension_entries:
  "(\<not> pixels_as_float p \<and> (width r = 0 \<or> height r = 0) \<longrightarrow> DoWork_entry ext p r = Inr r) \<and>
   (i < n \<and> i < length rs \<and> i < length ps \<and> \<not> pixels_as_float (ps ! i) \<and>
      (width (rs ! i) = 0 \<or> height (rs ! i) = 0) \<longrightarrow>
      DoWork_loop ext i n ps rs = DoWork_loop ext (i + 1) n ps rs) \<and>
   DoWork example_externals float_first_task = Inl SegmentationFault \<and>
   DoWork example_externals stale_float_task
     = Inr (stale_float_task\<lparr>Results := [stale_zero_width_float\<lparr>image_data_float := []\<rparr>]\<rparr>)"
proof -
  have skip: "DoWork_entry ext p r = Inr r"
    if "\<not> pixels_as_float p \<and> (width r = 0 \<or> height r = 0)" for p r
    using that by (simp add: DoWork_entry_skips_uint8)
  have cont: "DoWork_loop ext i n ps rs = DoWork_loop ext (i + 1) n ps rs"
    if "i < n \<and> i < length rs \<and> i < length ps \<and> \<not> pixels_as_float (ps ! i) \<and>
      (width (rs ! i) = 0 \<or> height (rs ! i) = 0)"
    using that by (subst DoWork_loop.simps) (simp add: skip)
  have a: "DoWork example_externals float_first_task = Inl SegmentationFault"
    by (simp add: DoWork_def float_first_task_def DoWork_loop.simps DoWork_entry_def
        as_float_def zero_width_float_def SetNumUninitialized_def INT32_MAX_def
        example_externals_def poke_def)
  have b: "DoWork example_externals stale_float_task
     = Inr (stale_float_task\<lparr>Results := [stale_zero_width_float\<lparr>image_data_float := []\<rparr>]\<rparr>)"
    by (simp add: DoWork_def stale_float_task_def DoWork_loop.simps DoWork_entry_def
        as_float_def stale_zero_width_float_def SetNumUninitialized_def INT32_MAX_def
        example_externals_def poke_def)
  show ?thesis
    using skip cont a b by blast
qed

theorem DoWork_zero_dimension_entries_witness:
  "\<not> pixels_as_float uncompressed \<and> width zero_width_float = 0 \<and>
   DoWork_entry example_externals uncompressed zero_width_float = Inr zero_width_float \<and>
   DoWork example_externals float_first_task = Inl SegmentationFault"
proof -
  have h: "\<not> pixels_as_float uncompressed" "width zero_width_float = 0"
    by (simp_all add: uncompressed_def zero_width_float_def)
  note t = DoWork_zero_dimension_entries [of uncompressed zero_width_float example_externals 0 0 "[]" "[]"]
  from t h have "DoWork_entry example_externals uncompressed zero_width_float = Inr zero_width_float"
    by blast
  with t h show ?thesis
    by blast
qed

end
